theory Spec2Isabelle
  imports Complex_Main
begin

section \<open>Python values\<close>

text \<open>
  The scanner (\<^verbatim>\<open>.github/workflows/stock_scanner.py\<close>) works on parsed JSON: the
  quote snapshot of provider A and the \<^verbatim>\<open>info\<close> dictionary of provider B.  A Python
  \<^verbatim>\<open>str\<close> is a sequence of code points, and \<^verbatim>\<open>len\<close> counts code points, so a
  string is a list of code points here.  A dictionary is an association list; the first
  pair with a key is the entry of that key.

  An \<^verbatim>\<open>int\<close> is unbounded.  A \<^verbatim>\<open>float\<close> is an IEEE 754 binary64 number:
  \<open>PFloat r\<close> is the finite float whose exact value is the rational \<open>r\<close>, so that the
  JSON number \<^verbatim>\<open>9.9\<close> is \<open>PFloat (double (99 / 10))\<close> (section Floats).  The
  arithmetic of the program rounds as the machine does and raises \<^verbatim>\<open>OverflowError\<close>
  where Python does.  NaN, the infinities and negative zero are not values of \<open>pyval\<close>:
  a response holding the literals \<^verbatim>\<open>NaN\<close>, \<^verbatim>\<open>Infinity\<close> or \<^verbatim>\<open>-0.0\<close> is outside the
  model.  The infinities and negative zero that the arithmetic itself produces are values
  of the type \<open>fl\<close>.
\<close>

type_synonym pystr = "nat list"

definition ascii :: "string \<Rightarrow> pystr" where
  "ascii s = map of_char s"

datatype pyval =
    PNone
  | PBool bool
  | PInt int
  | PFloat rat
  | PStr pystr
  | PList "pyval list"
  | PDict "(pystr \<times> pyval) list"

text \<open>
  The exception classes the program tells apart.  \<open>RequestException\<close> stands for
  \<^verbatim>\<open>requests.exceptions.RequestException\<close> and its subclasses, \<open>Exception\<close> for a plain
  \<^verbatim>\<open>Exception(msg)\<close>, \<open>OtherError\<close> for any other class a collaborator may raise.
  The string is \<^verbatim>\<open>str(e)\<close>.
\<close>

datatype error =
    RequestException pystr
  | TypeError
  | ValueError
  | AttributeError
  | KeyError
  | ZeroDivisionError
  | OverflowError
  | Exception pystr
  | OtherError pystr

text \<open>Truth value testing (\<^verbatim>\<open>if x\<close>, \<^verbatim>\<open>x and y\<close>).\<close>

fun truthy :: "pyval \<Rightarrow> bool" where
  "truthy PNone = False"
| "truthy (PBool b) = b"
| "truthy (PInt i) = (i \<noteq> 0)"
| "truthy (PFloat r) = (r \<noteq> 0)"
| "truthy (PStr s) = (s \<noteq> [])"
| "truthy (PList xs) = (xs \<noteq> [])"
| "truthy (PDict d) = (d \<noteq> [])"

text \<open>
  The numeric value of an operand of \<^verbatim>\<open>*\<close>, \<^verbatim>\<open>/\<close>, \<^verbatim>\<open><=\<close> and \<^verbatim>\<open>round\<close>.
  \<^verbatim>\<open>bool\<close> is a subclass of \<^verbatim>\<open>int\<close>: \<^verbatim>\<open>True\<close> is the number 1.
\<close>

fun num_of :: "pyval \<Rightarrow> rat option" where
  "num_of (PBool b) = Some (if b then 1 else 0)"
| "num_of (PInt i) = Some (of_int i)"
| "num_of (PFloat r) = Some r"
| "num_of v = None"

text \<open>\<^verbatim>\<open>d.get(key, default)\<close> on a dictionary.\<close>

definition dict_get :: "(pystr \<times> pyval) list \<Rightarrow> pystr \<Rightarrow> pyval \<Rightarrow> pyval" where
  "dict_get d k dflt = (case map_of d k of Some v \<Rightarrow> v | None \<Rightarrow> dflt)"

text \<open>\<^verbatim>\<open>x.get(key, default)\<close>: only a dictionary has the method.\<close>

fun py_get :: "pyval \<Rightarrow> pystr \<Rightarrow> pyval \<Rightarrow> error + pyval" where
  "py_get (PDict d) k dflt = Inr (dict_get d k dflt)"
| "py_get v k dflt = Inl AttributeError"

subsection \<open>Floats\<close>

text \<open>
  The result of a float operation: a finite number, given by its exact value (\<open>Fin 0\<close>
  is \<^verbatim>\<open>0.0\<close>), negative zero, or an infinity.  No operation of the program gives NaN
  on the values of the model.
\<close>

datatype fl = Fin rat | NegZero | PInf | NInf

text \<open>
  The binary exponent of a positive rational \<open>x\<close>: the integer \<open>e\<close> with
  \<open>2 ^ e \<le> x < 2 ^ (e + 1)\<close>.  For \<open>1 \<le> x\<close> it is the number of halvings that bring
  \<open>x\<close> below 2, for \<open>x < 1\<close> minus the number of doublings that bring it to 1 or above.
\<close>

function halvings :: "rat \<Rightarrow> nat" where
  "halvings x = (if x < 2 then 0 else Suc (halvings (x / 2)))"
  by pat_completeness auto
termination
proof (relation "measure (\<lambda>x. nat \<lfloor>x\<rfloor>)")
  show "wf (measure (\<lambda>x::rat. nat \<lfloor>x\<rfloor>))" by simp
next
  fix x :: rat
  assume "\<not> x < 2"
  then have x: "2 \<le> x" by simp
  have "x / 2 \<le> x - 1" using x by simp
  then have "\<lfloor>x / 2\<rfloor> \<le> \<lfloor>x - 1\<rfloor>" by (rule floor_mono)
  then have "\<lfloor>x / 2\<rfloor> < \<lfloor>x\<rfloor>" by simp
  moreover have "0 < \<lfloor>x\<rfloor>" using x by simp
  ultimately show "(x / 2, x) \<in> measure (\<lambda>x. nat \<lfloor>x\<rfloor>)" by simp
qed

function doublings :: "rat \<Rightarrow> nat" where
  "doublings x = (if x \<le> 0 \<or> 1 \<le> x then 0 else Suc (doublings (2 * x)))"
  by pat_completeness auto
termination
proof (relation "measure (\<lambda>x. nat \<lfloor>1 / x\<rfloor>)")
  show "wf (measure (\<lambda>x::rat. nat \<lfloor>1 / x\<rfloor>))" by simp
next
  fix x :: rat
  assume "\<not> (x \<le> 0 \<or> 1 \<le> x)"
  then have x: "0 < x" "x < 1" by simp_all
  have lt: "1 < 1 / x" using x by simp
  have eq: "1 / (2 * x) = 1 / x / 2" by simp
  have "\<lfloor>1 / x / 2\<rfloor> < \<lfloor>1 / x\<rfloor>"
  proof (cases "2 \<le> 1 / x")
    case True
    then have "1 / x / 2 \<le> 1 / x - 1" by simp
    then have "\<lfloor>1 / x / 2\<rfloor> \<le> \<lfloor>1 / x - 1\<rfloor>" by (rule floor_mono)
    then show ?thesis by simp
  next
    case False
    then have "1 / x / 2 < 1" by simp
    then have "\<lfloor>1 / x / 2\<rfloor> < 1" by (simp add: floor_less_iff)
    moreover have "1 \<le> \<lfloor>1 / x\<rfloor>" using lt by (simp add: le_floor_iff)
    ultimately show ?thesis by linarith
  qed
  then have "\<lfloor>1 / (2 * x)\<rfloor> < \<lfloor>1 / x\<rfloor>" by (simp only: eq)
  moreover have "0 < \<lfloor>1 / x\<rfloor>" using lt by (simp add: less_floor_iff)
  ultimately show "(2 * x, x) \<in> measure (\<lambda>x. nat \<lfloor>1 / x\<rfloor>)" by simp
qed

declare halvings.simps [simp del]

declare doublings.simps [simp del]

definition ilog2 :: "rat \<Rightarrow> int" where
  "ilog2 x = (if 1 \<le> x then int (halvings x) else - int (doublings x))"

definition pow2 :: "int \<Rightarrow> rat" where
  "pow2 e = (if 0 \<le> e then 2 ^ nat e else 1 / 2 ^ nat (- e))"

text \<open>The integer nearest to a rational, the even one of the two when it is half way.\<close>

definition round_half_even :: "rat \<Rightarrow> int" where
  "round_half_even q =
     (let f = \<lfloor>q\<rfloor>; d = q - of_int f
      in if d < 1 / 2 then f else if 1 / 2 < d then f + 1 else if even f then f else f + 1)"

text \<open>
  The float an exact result \<open>q\<close> is rounded to, to nearest, ties to even.  A float has
  53 significant bits, so between \<open>2 ^ e\<close> and \<open>2 ^ (e + 1)\<close> the floats are the multiples
  of \<open>2 ^ (e - 52)\<close>; the least exponent is \<open>- 1022\<close>, below which the spacing stays
  \<open>2 ^ (- 1074)\<close> and a result may round to zero, which keeps its sign.  The largest float
  is \<open>2 ^ 1024 - 2 ^ 971\<close>; a result is rounded to an infinity from \<open>2 ^ 1024 - 2 ^ 970\<close>
  on, half way between the largest float and \<open>2 ^ 1024\<close>.
\<close>

definition overflow_threshold :: rat where
  "overflow_threshold = 2 ^ 1024 - 2 ^ 970"

definition binary64 :: "rat \<Rightarrow> fl" where
  "binary64 q =
     (if q = 0 then Fin 0
      else if overflow_threshold \<le> \<bar>q\<bar> then (if 0 < q then PInf else NInf)
      else
        let e = max (ilog2 \<bar>q\<bar>) (- 1022);
            u = pow2 (e - 52);
            m = round_half_even (\<bar>q\<bar> / u)
        in if m = 0 then (if 0 < q then Fin 0 else NegZero)
           else Fin (if 0 < q then of_int m * u else - (of_int m * u)))"

text \<open>
  The float a decimal literal denotes, the one nearest to it: \<^verbatim>\<open>9.9\<close> in a JSON body
  is \<open>double (99 / 10)\<close>, and the literal \<^verbatim>\<open>1.02\<close> of the source (line 65) is
  \<open>float_1_02\<close>.
\<close>

definition double :: "rat \<Rightarrow> rat" where
  "double q = (case binary64 q of Fin r \<Rightarrow> r | NegZero \<Rightarrow> 0 | PInf \<Rightarrow> 0 | NInf \<Rightarrow> 0)"

definition float_1_02 :: rat where
  "float_1_02 = double (102 / 100)"

text \<open>
  \<^verbatim>\<open>float(x)\<close>, the conversion of an operand of a float operation: an int is rounded
  to the nearest float, and an int beyond the float range raises \<^verbatim>\<open>OverflowError\<close>.
\<close>

definition int_to_float :: "int \<Rightarrow> error + rat" where
  "int_to_float i =
     (case binary64 (of_int i) of
        Fin r \<Rightarrow> Inr r
      | NegZero \<Rightarrow> Inr 0
      | PInf \<Rightarrow> Inl OverflowError
      | NInf \<Rightarrow> Inl OverflowError)"

fun to_float :: "pyval \<Rightarrow> error + rat" where
  "to_float (PFloat r) = Inr r"
| "to_float (PInt i) = int_to_float i"
| "to_float (PBool b) = Inr (if b then 1 else 0)"
| "to_float v = Inl TypeError"

text \<open>
  The product and the quotient of two finite floats.  A zero result has the sign of the
  exact operation; a result beyond the float range is an infinity, not an exception.
\<close>

definition float_mul :: "rat \<Rightarrow> rat \<Rightarrow> fl" where
  "float_mul x y =
     (if x * y = 0 then (if x < 0 \<or> y < 0 then NegZero else Fin 0) else binary64 (x * y))"

definition float_div :: "rat \<Rightarrow> rat \<Rightarrow> error + fl" where
  "float_div x y =
     (if y = 0 then Inl ZeroDivisionError
      else if x = 0 then Inr (if y < 0 then NegZero else Fin 0)
      else Inr (binary64 (x / y)))"

text \<open>\<^verbatim>\<open>f - 1\<close> and \<^verbatim>\<open>f * 100\<close> for a float \<open>f\<close>: the int operand is converted to a float.\<close>

fun minus_one :: "fl \<Rightarrow> fl" where
  "minus_one (Fin r) = binary64 (r - 1)"
| "minus_one NegZero = binary64 (- 1)"
| "minus_one PInf = PInf"
| "minus_one NInf = NInf"

fun times_100 :: "fl \<Rightarrow> fl" where
  "times_100 (Fin r) = float_mul r 100"
| "times_100 NegZero = NegZero"
| "times_100 PInf = PInf"
| "times_100 NInf = NInf"

text \<open>
  \<^verbatim>\<open>round(f, 2)\<close> of a float: the float nearest to the multiple of 1/100 nearest to
  the exact value of \<open>f\<close>, a tie going to the even multiple; a zero result has the sign
  of \<open>f\<close>, and an infinity is returned as it is.
\<close>

fun float_round2 :: "fl \<Rightarrow> fl" where
  "float_round2 (Fin r) =
     (let k = round_half_even (r * 100)
      in if k = 0 then (if r < 0 then NegZero else Fin 0) else binary64 (of_int k / 100))"
| "float_round2 NegZero = NegZero"
| "float_round2 PInf = PInf"
| "float_round2 NInf = NInf"

text \<open>
  The comparisons of an exact number with a float, \<^verbatim>\<open>x <= f\<close> and \<^verbatim>\<open>f >= x\<close>.  Python
  compares an int and a float by their exact values.
\<close>

fun le_fl :: "rat \<Rightarrow> fl \<Rightarrow> bool" where
  "le_fl x (Fin r) = (x \<le> r)"
| "le_fl x NegZero = (x \<le> 0)"
| "le_fl x PInf = True"
| "le_fl x NInf = False"
text \<open>
  \<^verbatim>\<open>x * f\<close> and \<^verbatim>\<open>x <= f\<close> for a float \<open>f\<close>, \<^verbatim>\<open>x > n\<close> for an int \<open>n\<close>.  The product
  converts \<open>x\<close> to a float first; the comparisons are exact.
\<close>

definition py_mul_float :: "pyval \<Rightarrow> rat \<Rightarrow> error + fl" where
  "py_mul_float v f = (case to_float v of Inl e \<Rightarrow> Inl e | Inr x \<Rightarrow> Inr (float_mul x f))"

definition py_le_float :: "pyval \<Rightarrow> fl \<Rightarrow> error + bool" where
  "py_le_float v f = (case num_of v of Some x \<Rightarrow> Inr (le_fl x f) | None \<Rightarrow> Inl TypeError)"

definition py_gt_int :: "pyval \<Rightarrow> int \<Rightarrow> error + bool" where
  "py_gt_int v n = (case num_of v of Some x \<Rightarrow> Inr (x > of_int n) | None \<Rightarrow> Inl TypeError)"

subsection \<open>Printing\<close>

text \<open>\<^verbatim>\<open>str(n)\<close> of an int, and of an optional string in an f-string.\<close>

fun digits :: "nat \<Rightarrow> pystr" where
  "digits n = (if n < 10 then [48 + n] else digits (n div 10) @ [48 + n mod 10])"

definition str_int :: "int \<Rightarrow> pystr" where
  "str_int i = (if i < 0 then 45 # digits (nat (- i)) else digits (nat i))"

fun str_opt :: "pystr option \<Rightarrow> pystr" where
  "str_opt None = ascii ''None''"
| "str_opt (Some s) = s"

section \<open>The scanner and its collaborators\<close>

text \<open>
  A response of \<^verbatim>\<open>requests.get\<close>: \<open>http_error\<close> is the message of the \<^verbatim>\<open>HTTPError\<close>
  that \<^verbatim>\<open>raise_for_status()\<close> raises (\<open>None\<close> for a status below 400), \<open>json_body\<close> what
  \<^verbatim>\<open>response.json()\<close> returns or raises.  The network gives the outcome of the \<open>n\<close>-th
  request of the run to a URL: a response, or the exception \<^verbatim>\<open>requests.get\<close> raises.
\<close>

record response =
  http_error :: "pystr option"
  json_body :: "error + pyval"

type_synonym network = "nat \<Rightarrow> pystr \<Rightarrow> error + response"

datatype event = Get pystr | Sleep rat

text \<open>
  The \<^verbatim>\<open>StockScanner\<close> object.  \<open>trace\<close> is not an attribute of the class: it records
  the requests issued and the pauses taken so far, in order.
\<close>

record scanner =
  api_key :: "pystr option"
  api_calls :: int
  max_daily_calls :: int
  trace :: "event list"

definition StockScanner :: "pystr option \<Rightarrow> scanner" where
  "StockScanner key = \<lparr>api_key = key, api_calls = 0, max_daily_calls = 250, trace = []\<rparr>"

fun is_get :: "event \<Rightarrow> bool" where
  "is_get (Get u) = True"
| "is_get (Sleep d) = False"

definition requests_sent :: "scanner \<Rightarrow> nat" where
  "requests_sent s = length (filter is_get (trace s))"

definition record_event :: "event \<Rightarrow> scanner \<Rightarrow> scanner" where
  "record_event e s = s\<lparr>trace := trace s @ [e]\<rparr>"

subsection \<open>\<^verbatim>\<open>_make_api_call\<close>\<close>

text \<open>
  The body of the \<^verbatim>\<open>try\<close> of attempt \<open>i\<close> (lines 36 to 44): count the call, check the
  ceiling, send the request, check the status, pause, parse.
\<close>

definition limit_reached :: error where
  "limit_reached = Exception (ascii ''Daily API call limit reached'')"

definition attempt :: "network \<Rightarrow> pystr \<Rightarrow> int \<Rightarrow> scanner \<Rightarrow> (error + pyval) \<times> scanner" where
  "attempt net url i s =
     (let s1 = s\<lparr>api_calls := api_calls s + 1\<rparr> in
      if api_calls s1 > max_daily_calls s1 then (Inl limit_reached, s1)
      else
        (case net (requests_sent s1) url of
           Inl e \<Rightarrow> (Inl e, record_event (Get url) s1)
         | Inr r \<Rightarrow>
             (case http_error r of
                Some m \<Rightarrow> (Inl (RequestException m), record_event (Get url) s1)
              | None \<Rightarrow>
                  (json_body r,
                   record_event (Sleep (2 / 10 * (of_int i + 1))) (record_event (Get url) s1)))))"

text \<open>
  The \<^verbatim>\<open>for i in range(retries)\<close> loop over the remaining indices.  Only a
  \<^verbatim>\<open>RequestException\<close> is caught; any other exception leaves the function.
\<close>

fun api_loop :: "network \<Rightarrow> pystr \<Rightarrow> int \<Rightarrow> int list \<Rightarrow> scanner \<Rightarrow> (error + pyval) \<times> scanner" where
  "api_loop net url retries [] s =
     (Inl (Exception (ascii ''API call failed with unknown error'')), s)"
| "api_loop net url retries (i # rest) s =
     (case attempt net url i s of
        (Inl (RequestException m), s') \<Rightarrow>
          if i = retries - 1
          then (Inl (Exception (ascii ''API call failed after '' @ str_int retries
                                  @ ascii '' retries: '' @ m)), s')
          else api_loop net url retries rest (record_event (Sleep (1 * (of_int i + 1))) s')
      | (res, s') \<Rightarrow> (res, s'))"

definition py_range :: "int \<Rightarrow> int list" where
  "py_range n = map int [0..<nat n]"

definition make_api_call :: "network \<Rightarrow> pystr \<Rightarrow> int \<Rightarrow> scanner \<Rightarrow> (error + pyval) \<times> scanner" where
  "make_api_call net url retries s = api_loop net url retries (py_range retries) s"

subsection \<open>\<^verbatim>\<open>check_api_quota\<close>\<close>

text \<open>\<^verbatim>\<open>k in x\<close> for a string \<open>k\<close>, and \<^verbatim>\<open>x[k]\<close>.\<close>

fun is_substring :: "pystr \<Rightarrow> pystr \<Rightarrow> bool" where
  "is_substring k [] = (k = [])"
| "is_substring k (c # cs) = (take (length k) (c # cs) = k \<or> is_substring k cs)"

fun py_contains :: "pystr \<Rightarrow> pyval \<Rightarrow> error + bool" where
  "py_contains k (PDict d) = Inr (k \<in> set (map fst d))"
| "py_contains k (PList xs) = Inr (PStr k \<in> set xs)"
| "py_contains k (PStr s) = Inr (is_substring k s)"
| "py_contains k v = Inl TypeError"

fun py_item :: "pyval \<Rightarrow> pystr \<Rightarrow> error + pyval" where
  "py_item (PDict d) k = (case map_of d k of Some v \<Rightarrow> Inr v | None \<Rightarrow> Inl KeyError)"
| "py_item v k = Inl TypeError"

definition quota_url :: "scanner \<Rightarrow> pystr" where
  "quota_url s =
     ascii ''https://financialmodelingprep.com/api/v3/quota?apikey='' @ str_opt (api_key s)"

text \<open>What \<^verbatim>\<open>response.json()\<close> gave, examined as lines 23 to 27 do.\<close>

definition remaining_ok :: "pyval \<Rightarrow> error + bool" where
  "remaining_ok data =
     (case py_contains (ascii ''remainingCalls'') data of
        Inl e \<Rightarrow> Inl e
      | Inr False \<Rightarrow> Inr False
      | Inr True \<Rightarrow>
          (case py_item data (ascii ''remainingCalls'') of
             Inl e \<Rightarrow> Inl e
           | Inr remaining_calls \<Rightarrow> py_gt_int remaining_calls 5))"

text \<open>The body of the \<^verbatim>\<open>try\<close> (the request has no timeout and no status check).\<close>

definition quota_try :: "network \<Rightarrow> scanner \<Rightarrow> (error + bool) \<times> scanner" where
  "quota_try net s =
     (case net (requests_sent s) (quota_url s) of
        Inl e \<Rightarrow> Inl e
      | Inr r \<Rightarrow> (case json_body r of Inl e \<Rightarrow> Inl e | Inr data \<Rightarrow> remaining_ok data),
      record_event (Get (quota_url s)) s)"

text \<open>\<^verbatim>\<open>except Exception\<close>: every exception becomes \<^verbatim>\<open>False\<close>.\<close>

definition check_api_quota :: "network \<Rightarrow> scanner \<Rightarrow> bool \<times> scanner" where
  "check_api_quota net s =
     (case quota_try net s of (Inl e, s') \<Rightarrow> (False, s') | (Inr b, s') \<Rightarrow> (b, s'))"

subsection \<open>\<^verbatim>\<open>get_initial_stocks\<close>\<close>

text \<open>The dictionary appended to \<^verbatim>\<open>stocks_info\<close>: exactly these three keys.\<close>

record candidate =
  symbol :: pyval
  price :: pyval
  yearLow :: pyval

text \<open>
  The body of the inner \<^verbatim>\<open>try\<close> for one quote (lines 61 to 70).  \<open>None\<close> is a quote
  the condition rejects.  \<^verbatim>\<open>a and b and c\<close> evaluates left to right and stops at the
  first false operand.
\<close>

definition scan_quote :: "pyval \<Rightarrow> error + candidate option" where
  "scan_quote quote =
     (case py_get quote (ascii ''symbol'') (PStr []) of
        Inl e \<Rightarrow> Inl e
      | Inr quote_symbol \<Rightarrow>
     (case py_get quote (ascii ''price'') (PInt 0) of
        Inl e \<Rightarrow> Inl e
      | Inr current_price \<Rightarrow>
     (case py_get quote (ascii ''yearLow'') (PInt 0) of
        Inl e \<Rightarrow> Inl e
      | Inr year_low \<Rightarrow>
          if \<not> truthy current_price then Inr None
          else if \<not> truthy year_low then Inr None
          else
            (case py_mul_float year_low float_1_02 of
               Inl e \<Rightarrow> Inl e
             | Inr limit \<Rightarrow>
                 (case py_le_float current_price limit of
                    Inl e \<Rightarrow> Inl e
                  | Inr b \<Rightarrow>
                      if b
                      then Inr (Some \<lparr>symbol = quote_symbol, price = current_price, yearLow = year_low\<rparr>)
                      else Inr None)))))"

text \<open>
  The \<^verbatim>\<open>for quote in quotes\<close> loop: \<^verbatim>\<open>ValueError\<close> and \<^verbatim>\<open>TypeError\<close> skip the quote,
  any other exception leaves the loop.
\<close>

fun quotes_loop :: "pyval list \<Rightarrow> candidate list \<Rightarrow> error + candidate list" where
  "quotes_loop [] stocks_info = Inr stocks_info"
| "quotes_loop (q # qs) stocks_info =
     (case scan_quote q of
        Inr (Some c) \<Rightarrow> quotes_loop qs (stocks_info @ [c])
      | Inr None \<Rightarrow> quotes_loop qs stocks_info
      | Inl e \<Rightarrow>
          if e = ValueError \<or> e = TypeError then quotes_loop qs stocks_info else Inl e)"

text \<open>What a \<^verbatim>\<open>for\<close> loop iterates over: the items of a list, the keys of a
  dictionary, the characters of a string.\<close>

fun py_iter :: "pyval \<Rightarrow> error + pyval list" where
  "py_iter (PList xs) = Inr xs"
| "py_iter (PDict d) = Inr (map (\<lambda>kv. PStr (fst kv)) d)"
| "py_iter (PStr s) = Inr (map (\<lambda>c. PStr [c]) s)"
| "py_iter v = Inl TypeError"

definition quote_url :: "scanner \<Rightarrow> pystr" where
  "quote_url s =
     ascii ''https://financialmodelingprep.com/api/v3/quotes/nasdaq?apikey='' @ str_opt (api_key s)"

text \<open>The outer \<^verbatim>\<open>except Exception\<close> turns every failure into the empty list.\<close>

definition get_initial_stocks :: "network \<Rightarrow> scanner \<Rightarrow> candidate list \<times> scanner" where
  "get_initial_stocks net s =
     (case make_api_call net (quote_url s) 3 s of
        (Inl e, s') \<Rightarrow> ([], s')
      | (Inr quotes, s') \<Rightarrow>
          (case py_iter quotes of
             Inl e \<Rightarrow> ([], s')
           | Inr qs \<Rightarrow>
               (case quotes_loop qs [] of
                  Inl e \<Rightarrow> ([], s')
                | Inr stocks_info \<Rightarrow> (stocks_info, s'))))"

subsection \<open>\<^verbatim>\<open>enrich_stock_data\<close>\<close>

text \<open>
  \<^verbatim>\<open>round(x, 2)\<close>: of a float it is the float \<open>float_round2\<close> gives, of an int (or a
  bool) it is that int.  The two kinds of result are kept apart.
\<close>

datatype pynum = NInt int | NFloat fl

fun py_round2 :: "pyval \<Rightarrow> error + pynum" where
  "py_round2 (PFloat r) = Inr (NFloat (float_round2 (Fin r)))"
| "py_round2 (PInt i) = Inr (NInt i)"
| "py_round2 (PBool b) = Inr (NInt (if b then 1 else 0))"
| "py_round2 v = Inl TypeError"

text \<open>
  True division \<^verbatim>\<open>a / b\<close>, which always gives a float.  Of two ints (a bool is an int)
  it is the float nearest to the exact quotient, and \<^verbatim>\<open>OverflowError\<close> when that is
  beyond the float range.  When an operand is a float, the other one is converted to a
  float, the left operand first, before the divisor is tested; the quotient of the two
  floats is then an infinity when it is beyond the range.
\<close>

fun int_of :: "pyval \<Rightarrow> int option" where
  "int_of (PInt i) = Some i"
| "int_of (PBool b) = Some (if b then 1 else 0)"
| "int_of v = None"

definition int_div :: "int \<Rightarrow> int \<Rightarrow> error + fl" where
  "int_div i j =
     (if j = 0 then Inl ZeroDivisionError
      else if i = 0 then Inr (if j < 0 then NegZero else Fin 0)
      else
        (case binary64 (of_int i / of_int j) of
           PInf \<Rightarrow> Inl OverflowError
         | NInf \<Rightarrow> Inl OverflowError
         | Fin r \<Rightarrow> Inr (Fin r)
         | NegZero \<Rightarrow> Inr NegZero))"

definition py_div :: "pyval \<Rightarrow> pyval \<Rightarrow> error + fl" where
  "py_div a b =
     (if num_of a = None \<or> num_of b = None then Inl TypeError
      else
        (case (int_of a, int_of b) of
           (Some i, Some j) \<Rightarrow> int_div i j
         | _ \<Rightarrow>
             (case to_float a of
                Inl e \<Rightarrow> Inl e
              | Inr x \<Rightarrow> (case to_float b of Inl e \<Rightarrow> Inl e | Inr y \<Rightarrow> float_div x y))))"

text \<open>The chained comparison \<^verbatim>\<open>10000000 <= market_cap <= 300000000\<close>.\<close>

definition in_band :: "pyval \<Rightarrow> error + bool" where
  "in_band market_cap =
     (case num_of market_cap of
        Some x \<Rightarrow> Inr (10000000 \<le> x \<and> x \<le> 300000000)
      | None \<Rightarrow> Inl TypeError)"

text \<open>\<^verbatim>\<open>x[:200]\<close> and \<^verbatim>\<open>x + '...'\<close>.\<close>

fun py_slice200 :: "pyval \<Rightarrow> error + pyval" where
  "py_slice200 (PStr s) = Inr (PStr (take 200 s))"
| "py_slice200 (PList xs) = Inr (PList (take 200 xs))"
| "py_slice200 v = Inl TypeError"

fun py_add_str :: "pyval \<Rightarrow> pystr \<Rightarrow> error + pyval" where
  "py_add_str (PStr s) t = Inr (PStr (s @ t))"
| "py_add_str v t = Inl TypeError"

text \<open>
  How Python prints a value is not modelled digit by digit: \<open>str_float\<close> is \<^verbatim>\<open>str\<close> of a
  float, \<open>fmt_1f\<close> the format \<^verbatim>\<open>:.1f\<close>, \<open>str_other\<close> is \<^verbatim>\<open>str\<close> of a list or a
  dictionary.
\<close>

record formats =
  str_float :: "fl \<Rightarrow> pystr"
  fmt_1f :: "fl \<Rightarrow> pystr"
  str_other :: "pyval \<Rightarrow> pystr"

text \<open>The dictionary appended to \<^verbatim>\<open>enriched_stocks\<close>: exactly these ten keys.\<close>

record enriched =
  Symbol :: pyval
  Company_Name :: pyval
  Current_Price :: pynum
  Week52_Low :: pynum
  Distance_from_Low :: pyval
  Market_Cap :: pyval
  Industry :: pyval
  Sector :: pyval
  Volume :: pyval
  Description :: pyval

definition ebind :: "error + 'a \<Rightarrow> ('a \<Rightarrow> error + 'b) \<Rightarrow> error + 'b" where
  "ebind m f = (case m of Inl e \<Rightarrow> Inl e | Inr x \<Rightarrow> f x)"

text \<open>\<^verbatim>\<open>round((ratio - 1) * 100, 2)\<close> for the float \<open>ratio\<close>, each step rounded.\<close>

definition distance_from_low :: "fl \<Rightarrow> fl" where
  "distance_from_low ratio = float_round2 (times_100 (minus_one ratio))"

definition not_available :: pyval where
  "not_available = PStr (ascii ''N/A'')"

text \<open>
  The body of the \<^verbatim>\<open>try\<close> for one stock, after \<^verbatim>\<open>yf.Ticker(...).info\<close> gave \<open>info\<close>
  (lines 94 to 111).  \<open>None\<close> is the \<^verbatim>\<open>continue\<close> of a market cap outside the band.
\<close>

definition enrich_info :: "formats \<Rightarrow> candidate \<Rightarrow> pyval \<Rightarrow> error + enriched option" where
  "enrich_info fm stock info =
     ebind (py_get info (ascii ''marketCap'') (PInt 0)) (\<lambda>market_cap.
     ebind (in_band market_cap) (\<lambda>inside.
       if \<not> inside then Inr None
       else
         ebind (py_div market_cap (PFloat 1000000)) (\<lambda>millions.
         ebind (py_get info (ascii ''longName'') not_available) (\<lambda>long_name.
         ebind (py_round2 (price stock)) (\<lambda>current_price.
         ebind (py_round2 (yearLow stock)) (\<lambda>year_low.
         ebind (py_div (price stock) (yearLow stock)) (\<lambda>ratio.
         ebind (py_get info (ascii ''industry'') not_available) (\<lambda>industry_v.
         ebind (py_get info (ascii ''sector'') not_available) (\<lambda>sector_v.
         ebind (py_get info (ascii ''volume'') (PInt 0)) (\<lambda>volume_v.
         ebind (py_get info (ascii ''longBusinessSummary'') not_available) (\<lambda>summary.
         ebind (py_slice200 summary) (\<lambda>head_v.
         ebind (py_add_str head_v (ascii ''...'')) (\<lambda>description_v.
           Inr (Some
             \<lparr>Symbol = symbol stock,
              Company_Name = long_name,
              Current_Price = current_price,
              Week52_Low = year_low,
              Distance_from_Low =
                PStr (str_float fm (distance_from_low ratio) @ ascii ''%''),
              Market_Cap = PStr (ascii ''$'' @ fmt_1f fm millions @ ascii ''M''),
              Industry = industry_v,
              Sector = sector_v,
              Volume = volume_v,
              Description = description_v\<rparr>))))))))))))))"

text \<open>
  Provider B: what \<^verbatim>\<open>yf.Ticker(symbol).info\<close> returns or raises for a symbol.
\<close>

type_synonym metadata = "pyval \<Rightarrow> error + pyval"

definition enrich_one :: "metadata \<Rightarrow> formats \<Rightarrow> candidate \<Rightarrow> error + enriched option" where
  "enrich_one yf fm stock = ebind (yf (symbol stock)) (enrich_info fm stock)"

text \<open>
  The loop over the stocks, in order.  \<^verbatim>\<open>except Exception\<close> skips the stock.  The
  progress line and the pause of 0.1 s after each record change nothing that is returned.
\<close>

fun enrich_loop :: "metadata \<Rightarrow> formats \<Rightarrow> candidate list \<Rightarrow> enriched list \<Rightarrow> enriched list" where
  "enrich_loop yf fm [] enriched_stocks = enriched_stocks"
| "enrich_loop yf fm (stock # rest) enriched_stocks =
     (case enrich_one yf fm stock of
        Inr (Some stock_info) \<Rightarrow> enrich_loop yf fm rest (enriched_stocks @ [stock_info])
      | Inr None \<Rightarrow> enrich_loop yf fm rest enriched_stocks
      | Inl e \<Rightarrow> enrich_loop yf fm rest enriched_stocks)"

definition enrich_stock_data :: "metadata \<Rightarrow> formats \<Rightarrow> candidate list \<Rightarrow> enriched list" where
  "enrich_stock_data yf fm stocks = enrich_loop yf fm stocks []"

definition scan_stocks :: "network \<Rightarrow> metadata \<Rightarrow> formats \<Rightarrow> scanner \<Rightarrow> enriched list \<times> scanner" where
  "scan_stocks net yf fm s =
     (case get_initial_stocks net s of
        (initial_stocks, s') \<Rightarrow> (enrich_stock_data yf fm initial_stocks, s'))"

subsection \<open>\<^verbatim>\<open>send_whatsapp\<close>\<close>

text \<open>A replacement field \<^verbatim>\<open>{v}\<close> of an f-string.\<close>

fun py_format :: "formats \<Rightarrow> pyval \<Rightarrow> pystr" where
  "py_format fm (PStr s) = s"
| "py_format fm (PInt i) = str_int i"
| "py_format fm (PFloat r) = str_float fm (Fin r)"
| "py_format fm PNone = ascii ''None''"
| "py_format fm (PBool b) = (if b then ascii ''True'' else ascii ''False'')"
| "py_format fm v = str_other fm v"

fun format_num :: "formats \<Rightarrow> pynum \<Rightarrow> pystr" where
  "format_num fm (NInt i) = str_int i"
| "format_num fm (NFloat f) = str_float fm f"

definition MAX_MESSAGE_LENGTH :: nat where
  "MAX_MESSAGE_LENGTH = 1600"

text \<open>
  The five lines a stock adds to the message (lines 137 to 141).  The emoji are single
  code points: U+1F4B5, U+1F4CA, U+1F3E2, U+1F4B0, and U+1F6A8 in the banner.
\<close>

definition stock_lines :: "formats \<Rightarrow> enriched \<Rightarrow> pystr" where
  "stock_lines fm stock =
     ascii ''*'' @ py_format fm (Symbol stock) @ ascii '' - ''
       @ py_format fm (Company_Name stock) @ ascii ''*'' @ [10]
     @ [128181] @ ascii '' Price: $'' @ format_num fm (Current_Price stock) @ [10]
     @ [128202] @ ascii '' From Low: '' @ py_format fm (Distance_from_Low stock) @ [10]
     @ [127970] @ ascii '' Industry: '' @ py_format fm (Industry stock) @ [10]
     @ [128176] @ ascii '' Market Cap: '' @ py_format fm (Market_Cap stock) @ [10, 10]"

fun message_loop :: "formats \<Rightarrow> enriched list \<Rightarrow> pystr \<Rightarrow> pystr" where
  "message_loop fm [] message_body = message_body"
| "message_loop fm (stock # rest) message_body =
     message_loop fm rest (message_body @ stock_lines fm stock)"

text \<open>
  The message before the length check (lines 134 to 144).  \<open>now\<close> is the text of
  \<^verbatim>\<open>datetime.now().strftime('%Y-%m-%d %H:%M:%S')\<close>.
\<close>

definition assemble :: "formats \<Rightarrow> pystr \<Rightarrow> enriched list \<Rightarrow> int \<Rightarrow> pystr" where
  "assemble fm now stocks_data calls =
     message_loop fm stocks_data
       ([128680] @ ascii '' *Small Cap Stocks at 52-Week Lows* '' @ [128680] @ [10, 10])
     @ ascii ''Generated: '' @ now @ [10]
     @ ascii ''FMP API Calls Used: '' @ str_int calls"

definition truncation_notice :: pystr where
  "truncation_notice = [10, 10] @ ascii ''(Message truncated due to length)''"

definition limit_length :: "pystr \<Rightarrow> pystr" where
  "limit_length message_body =
     (if length message_body > MAX_MESSAGE_LENGTH
      then take (MAX_MESSAGE_LENGTH - 100) message_body @ truncation_notice
      else message_body)"

text \<open>
  What is handed to the messaging client: the arguments of \<^verbatim>\<open>Client(...)\<close> and of
  \<^verbatim>\<open>messages.create(...)\<close>.  \<open>env\<close> is \<^verbatim>\<open>os.getenv\<close>.  A failure of the delivery
  is caught and printed; the function returns nothing in either case.
\<close>

record delivery =
  client_sid :: "pystr option"
  client_token :: "pystr option"
  body :: pystr
  from_id :: "pystr option"
  to_id :: "pystr option"

definition send_whatsapp ::
  "(pystr \<Rightarrow> pystr option) \<Rightarrow> formats \<Rightarrow> pystr \<Rightarrow> enriched list
     \<Rightarrow> pystr option \<Rightarrow> pystr option \<Rightarrow> pystr option \<Rightarrow> pystr option \<Rightarrow> int \<Rightarrow> delivery" where
  "send_whatsapp env fm now stocks_data account_sid auth_token from_number to_number calls =
     \<lparr>client_sid = env (ascii ''TWILIO_ACCOUNT_SID''),
      client_token = env (ascii ''TWILIO_AUTH_TOKEN''),
      body = limit_length (assemble fm now stocks_data calls),
      from_id = env (ascii ''TWILIO_FROM_NUMBER''),
      to_id = env (ascii ''TWILIO_TO_NUMBER'')\<rparr>"

subsection \<open>\<^verbatim>\<open>main\<close>\<close>

text \<open>The delivery attempted by a run, if any, and the scanner at its end.\<close>

definition main ::
  "(pystr \<Rightarrow> pystr option) \<Rightarrow> network \<Rightarrow> metadata \<Rightarrow> formats \<Rightarrow> pystr
     \<Rightarrow> delivery option \<times> scanner" where
  "main env net yf fm now =
     (case check_api_quota net (StockScanner (env (ascii ''FMP_API_KEY''))) of
        (enough, s1) \<Rightarrow>
          if \<not> enough then (None, s1)
          else
            (case scan_stocks net yf fm s1 of
               (stocks_at_low, s2) \<Rightarrow>
                 if stocks_at_low \<noteq> []
                 then (Some (send_whatsapp env fm now stocks_at_low
                         (env (ascii ''TWILIO_ACCOUNT_SID'')) (env (ascii ''TWILIO_AUTH_TOKEN''))
                         (env (ascii ''TWILIO_FROM_NUMBER'')) (env (ascii ''TWILIO_TO_NUMBER''))
                         (api_calls s2)), s2)
                 else (None, s2)))"

section \<open>Notions used in the statements\<close>

text \<open>
  What the \<open>n\<close>-th request does, seen from \<^verbatim>\<open>_make_api_call\<close>: \<open>transport_error\<close> is
  the message of the \<^verbatim>\<open>RequestException\<close> that \<^verbatim>\<open>requests.get\<close> or
  \<^verbatim>\<open>raise_for_status\<close> raises, if one does; \<open>parsed_result\<close> is the value
  \<^verbatim>\<open>response.json()\<close> returns when neither raises.
\<close>

definition transport_error :: "network \<Rightarrow> nat \<Rightarrow> pystr \<Rightarrow> pystr option" where
  "transport_error net n url =
     (case net n url of
        Inl (RequestException m) \<Rightarrow> Some m
      | Inl e \<Rightarrow> None
      | Inr r \<Rightarrow> http_error r)"

definition parsed_result :: "network \<Rightarrow> nat \<Rightarrow> pystr \<Rightarrow> pyval option" where
  "parsed_result net n url =
     (case net n url of
        Inl e \<Rightarrow> None
      | Inr r \<Rightarrow>
          (case http_error r of
             Some m \<Rightarrow> None
           | None \<Rightarrow> (case json_body r of Inl e \<Rightarrow> None | Inr v \<Rightarrow> Some v)))"

text \<open>
  The initial filter, stated on a price and a year low without reference to the loop:
  both are numbers (\<^verbatim>\<open>True\<close> counting as 1), both different from zero, the year low
  converts to a float \<open>y\<close>, and the price is at most the float product of \<open>y\<close> and the
  float \<^verbatim>\<open>1.02\<close>.  A quote is near its low when its price and its year low (0 when
  missing) pass.  \<open>candidate_of\<close> is the dictionary kept for such a quote, \<open>accepted\<close> the
  candidate a snapshot element gives, if any.
\<close>

fun is_dict :: "pyval \<Rightarrow> bool" where
  "is_dict (PDict d) = True"
| "is_dict v = False"

definition passes_filter :: "pyval \<Rightarrow> pyval \<Rightarrow> bool" where
  "passes_filter current_price year_low =
     (case (num_of current_price, num_of year_low, to_float year_low) of
        (Some p, Some y0, Inr y) \<Rightarrow>
          p \<noteq> 0 \<and> y0 \<noteq> 0 \<and> le_fl p (float_mul y float_1_02)
      | _ \<Rightarrow> False)"

definition near_low :: "(pystr \<times> pyval) list \<Rightarrow> bool" where
  "near_low d =
     passes_filter (dict_get d (ascii ''price'') (PInt 0)) (dict_get d (ascii ''yearLow'') (PInt 0))"

definition candidate_of :: "(pystr \<times> pyval) list \<Rightarrow> candidate" where
  "candidate_of d =
     \<lparr>symbol = dict_get d (ascii ''symbol'') (PStr []),
      price = dict_get d (ascii ''price'') (PInt 0),
      yearLow = dict_get d (ascii ''yearLow'') (PInt 0)\<rparr>"

fun accepted :: "pyval \<Rightarrow> candidate option" where
  "accepted (PDict d) = (if near_low d then Some (candidate_of d) else None)"
| "accepted v = None"

text \<open>
  An int too large to be converted to a float.  A quote with such a year low and a price
  that is not falsy makes \<^verbatim>\<open>year_low * 1.02\<close> raise \<^verbatim>\<open>OverflowError\<close>.
\<close>

fun too_large :: "pyval \<Rightarrow> bool" where
  "too_large (PInt i) = (overflow_threshold \<le> \<bar>of_int i\<bar>)"
| "too_large v = False"

definition overflowing :: "(pystr \<times> pyval) list \<Rightarrow> bool" where
  "overflowing d =
     (truthy (dict_get d (ascii ''price'') (PInt 0))
      \<and> too_large (dict_get d (ascii ''yearLow'') (PInt 0)))"

text \<open>What every stock returned by \<^verbatim>\<open>get_initial_stocks\<close> satisfies
  (lemma \<open>get_initial_stocks_candidates\<close>).\<close>

definition is_candidate :: "candidate \<Rightarrow> bool" where
  "is_candidate stock = passes_filter (price stock) (yearLow stock)"

text \<open>
  When \<^verbatim>\<open>a / b\<close> raises \<^verbatim>\<open>OverflowError\<close> for two numbers with \<open>b\<close> not zero: the
  exact quotient of two ints is beyond the float range, or, when one of the two is a
  float, the other is an int too large to be converted.
\<close>

definition quotient_overflows :: "pyval \<Rightarrow> pyval \<Rightarrow> bool" where
  "quotient_overflows a b =
     (case (int_of a, int_of b) of
        (Some i, Some j) \<Rightarrow> overflow_threshold \<le> \<bar>of_int i / of_int j\<bar>
      | _ \<Rightarrow> too_large a \<or> too_large b)"




text \<open>The record the enricher appends for a stock, if it appends one.\<close>

definition enriched_record :: "metadata \<Rightarrow> formats \<Rightarrow> candidate \<Rightarrow> enriched option" where
  "enriched_record yf fm stock =
     (case enrich_one yf fm stock of Inr (Some r) \<Rightarrow> Some r | _ \<Rightarrow> None)"

section \<open>Example inputs\<close>

text \<open>
  Networks: one that times out twice and then answers, one that always times out, one
  that always answers with the same JSON value, one whose answer does not parse.
\<close>

definition flaky_network :: "pyval \<Rightarrow> network" where
  "flaky_network v n url =
     (if n < 2 then Inl (RequestException (ascii ''timed out''))
      else Inr \<lparr>http_error = None, json_body = Inr v\<rparr>)"

definition dead_network :: network where
  "dead_network n url = Inl (RequestException (ascii ''timed out''))"

definition always_reply :: "pyval \<Rightarrow> network" where
  "always_reply v n url = Inr \<lparr>http_error = None, json_body = Inr v\<rparr>"

definition garbled_reply :: network where
  "garbled_reply n url = Inr \<lparr>http_error = None, json_body = Inl ValueError\<rparr>"

text \<open>
  Quotes, after the scenario of the specification: ABC at 9.9 with a year low of 10.0,
  XYZ at 50 with a year low of 10.0; a quote with a negative price, one without a year
  low, and one whose year low is the int \<open>2 ^ 1024\<close>.
\<close>

definition abc_quote :: "(pystr \<times> pyval) list" where
  "abc_quote = [(ascii ''symbol'', PStr (ascii ''ABC'')),
                (ascii ''price'', PFloat (double (99 / 10))),
                (ascii ''yearLow'', PFloat 10)]"

definition xyz_quote :: "(pystr \<times> pyval) list" where
  "xyz_quote = [(ascii ''symbol'', PStr (ascii ''XYZ'')), (ascii ''price'', PInt 50),
                (ascii ''yearLow'', PFloat 10)]"

definition neg_quote :: "(pystr \<times> pyval) list" where
  "neg_quote = [(ascii ''symbol'', PStr (ascii ''NEG'')), (ascii ''price'', PInt (- 5)),
                (ascii ''yearLow'', PInt 10)]"

definition nolow_quote :: "(pystr \<times> pyval) list" where
  "nolow_quote = [(ascii ''symbol'', PStr (ascii ''NOLOW'')), (ascii ''price'', PInt 1)]"

definition huge_quote :: "(pystr \<times> pyval) list" where
  "huge_quote = [(ascii ''symbol'', PStr (ascii ''HUGE'')), (ascii ''price'', PInt 1),
                 (ascii ''yearLow'', PInt (2 ^ 1024))]"

text \<open>
  Stocks and their metadata: ABC with a market cap of 50,000,000; the same metadata with
  a null summary and with no summary; DEF at 10.1 with a year low of 10.0; and a stock whose
  price is the int \<open>- (2 ^ 1024)\<close>, with a year low of 1.
\<close>

definition abc_stock :: candidate where
  "abc_stock =
     \<lparr>symbol = PStr (ascii ''ABC''), price = PFloat (double (99 / 10)), yearLow = PFloat 10\<rparr>"


definition deep_stock :: candidate where
  "deep_stock = \<lparr>symbol = PStr (ascii ''ABC''), price = PInt (- (2 ^ 1024)), yearLow = PInt 1\<rparr>"

definition abc_info :: pyval where
  "abc_info = PDict
     [(ascii ''marketCap'', PInt 50000000),
      (ascii ''longName'', PStr (ascii ''ABC Corp'')),
      (ascii ''longBusinessSummary'', PStr (ascii ''Makes things.''))]"

definition abc_only :: metadata where
  "abc_only ticker = (if ticker = PStr (ascii ''ABC'') then Inr abc_info else Inl KeyError)"

definition null_summary_info :: pyval where
  "null_summary_info = PDict
     [(ascii ''marketCap'', PInt 50000000), (ascii ''longBusinessSummary'', PNone)]"

definition no_summary_info :: pyval where
  "no_summary_info = PDict [(ascii ''marketCap'', PInt 50000000)]"

text \<open>
  \<open>plain_formats\<close> prints a float rounded to one decimal, which is what the format
  \<^verbatim>\<open>:.1f\<close> gives, and what \<^verbatim>\<open>str\<close> gives for the floats of the examples
  (\<^verbatim>\<open>-1.0\<close>, \<^verbatim>\<open>9.9\<close>, \<^verbatim>\<open>50.0\<close>).  \<open>abc_record\<close> is the record the enricher builds for
  ABC (lemma \<open>enrich_abc\<close>).
\<close>

definition one_decimal :: "fl \<Rightarrow> pystr" where
  "one_decimal f =
     (case f of
        Fin r \<Rightarrow>
          (let k = round_half_even (\<bar>r\<bar> * 10)
           in (if r < 0 then ascii ''-'' else []) @ str_int (k div 10) @ ascii ''.''
                @ str_int (k mod 10))
      | NegZero \<Rightarrow> ascii ''-0.0''
      | PInf \<Rightarrow> ascii ''inf''
      | NInf \<Rightarrow> ascii ''-inf'')"

definition plain_formats :: formats where
  "plain_formats =
     \<lparr>str_float = one_decimal, fmt_1f = one_decimal, str_other = (\<lambda>v. ascii ''?'')\<rparr>"

definition abc_record :: enriched where
  "abc_record =
     \<lparr>Symbol = PStr (ascii ''ABC''),
      Company_Name = PStr (ascii ''ABC Corp''),
      Current_Price = NFloat (Fin (double (99 / 10))),
      Week52_Low = NFloat (Fin 10),
      Distance_from_Low = PStr (ascii ''-1.0%''),
      Market_Cap = PStr (ascii ''$50.0M''),
      Industry = PStr (ascii ''N/A''),
      Sector = PStr (ascii ''N/A''),
      Volume = PInt 0,
      Description = PStr (ascii ''Makes things....'')\<rparr>"

definition example_env :: "pystr \<Rightarrow> pystr option" where
  "example_env name =
     (if name = ascii ''TWILIO_ACCOUNT_SID'' then Some (ascii ''AC0'')
      else if name = ascii ''TWILIO_FROM_NUMBER'' then Some (ascii ''whatsapp:+1'')
      else None)"

section \<open>Float arithmetic\<close>

lemma pow2_pos: "0 < pow2 e"
  by (simp add: pow2_def)

lemma pow2_power_int: "pow2 e = 2 powi e"
  by (simp add: pow2_def power_int_def power_one_over [symmetric] inverse_eq_divide)

lemma pow2_add: "pow2 (a + b) = pow2 a * pow2 b"
  by (simp add: pow2_power_int power_int_add)

lemma halvings_le: "1 \<le> x \<Longrightarrow> 2 ^ halvings x \<le> x"
proof (induction x rule: halvings.induct)
  case (1 x)
  show ?case
  proof (cases "x < 2")
    case True
    then show ?thesis using "1.prems" by (simp add: halvings.simps)
  next
    case False
    then have "1 \<le> x / 2" by simp
    with "1.IH" False have "2 ^ halvings (x / 2) \<le> x / 2" by simp
    then show ?thesis using False by (simp add: halvings.simps [of x])
  qed
qed

lemma round_half_even_ge: "of_int n \<le> q \<Longrightarrow> n \<le> round_half_even q"
proof -
  assume "of_int n \<le> q"
  then have "n \<le> \<lfloor>q\<rfloor>" by (simp add: le_floor_iff)
  then show ?thesis by (simp add: round_half_even_def Let_def)
qed

lemma round_half_even_divide:
  assumes "0 < b"
  shows "round_half_even (of_int a / of_int b) =
     (if 2 * (a mod b) < b then a div b
      else if b < 2 * (a mod b) then a div b + 1
      else if even (a div b) then a div b else a div b + 1)"
proof -
  have f: "\<lfloor>(of_int a / of_int b :: rat)\<rfloor> = a div b"
    by (rule floor_divide_of_int_eq)
  have "(of_int a :: rat) = of_int (a div b * b + a mod b)" by simp
  then have "(of_int a :: rat) = of_int (a div b) * of_int b + of_int (a mod b)"
    by (simp only: of_int_add of_int_mult)
  then have d: "(of_int a / of_int b :: rat) - of_int (a div b) = of_int (a mod b) / of_int b"
    using assms by (simp add: field_simps)
  have lt: "(of_int (a mod b) / of_int b :: rat) < 1 / 2 \<longleftrightarrow> 2 * (a mod b) < b"
  proof -
    have "(of_int (a mod b) / of_int b :: rat) < 1 / 2
            \<longleftrightarrow> (of_int (2 * (a mod b)) :: rat) < of_int b"
      using assms by (simp add: field_simps)
    then show ?thesis by (simp only: of_int_less_iff)
  qed
  have gt: "1 / 2 < (of_int (a mod b) / of_int b :: rat) \<longleftrightarrow> b < 2 * (a mod b)"
  proof -
    have "1 / 2 < (of_int (a mod b) / of_int b :: rat)
            \<longleftrightarrow> (of_int b :: rat) < of_int (2 * (a mod b))"
      using assms by (simp add: field_simps)
    then show ?thesis by (simp only: of_int_less_iff)
  qed
  show ?thesis
    unfolding round_half_even_def Let_def f d lt gt by simp
qed

text \<open>Rounding a numeral, a fraction of numerals and their negations, by integer division.\<close>

lemma round_half_even_numeral: "round_half_even (numeral a) = numeral a"
  by (simp add: round_half_even_def)

lemma round_half_even_neg_numeral: "round_half_even (- numeral a) = - numeral a"
  by (simp add: round_half_even_def)

lemma round_half_even_fraction:
  "round_half_even (numeral a / numeral b) =
     (if 2 * (numeral a mod numeral b) < (numeral b :: int) then numeral a div numeral b
      else if (numeral b :: int) < 2 * (numeral a mod numeral b) then numeral a div numeral b + 1
      else if even (numeral a div numeral b :: int) then numeral a div numeral b
      else numeral a div numeral b + 1)"
  using round_half_even_divide [of "numeral b" "numeral a"] by simp

lemma round_half_even_neg_fraction:
  "round_half_even (- (numeral a / numeral b)) =
     (if 2 * (- numeral a mod numeral b) < (numeral b :: int) then - numeral a div numeral b
      else if (numeral b :: int) < 2 * (- numeral a mod numeral b)
        then - numeral a div numeral b + 1
      else if even (- numeral a div numeral b :: int) then - numeral a div numeral b
      else - numeral a div numeral b + 1)"
  using round_half_even_divide [of "numeral b" "- numeral a"] by simp

lemmas float_eval =
  binary64_def overflow_threshold_def ilog2_def pow2_def Let_def halvings.simps doublings.simps
  round_half_even_numeral round_half_even_neg_numeral round_half_even_fraction
  round_half_even_neg_fraction float_mul_def float_div_def

lemma float_1_02_value: "float_1_02 = 2296835809958953 / 2251799813685248"
  by (simp add: float_1_02_def double_def float_eval)

lemma double_9_9: "double (99 / 10) = 5573204538870989 / 562949953421312"
  by (simp add: double_def float_eval)


lemma overflow_threshold_pos: "0 < overflow_threshold"
  by (simp add: overflow_threshold_def)

lemma binary64_finite:
  "\<bar>q\<bar> < overflow_threshold \<Longrightarrow> binary64 q \<noteq> PInf \<and> binary64 q \<noteq> NInf"
  by (simp add: binary64_def Let_def)

lemma binary64_overflow:
  "overflow_threshold \<le> \<bar>q\<bar> \<Longrightarrow> binary64 q = (if 0 < q then PInf else NInf)"
proof -
  assume a: "overflow_threshold \<le> \<bar>q\<bar>"
  with overflow_threshold_pos have "q \<noteq> 0" by auto
  with a show ?thesis by (simp add: binary64_def)
qed


text \<open>
  A result of magnitude at least 1 is rounded to a float of magnitude at least 1 and of
  the same sign, or to an infinity.
\<close>

lemma binary64_magnitude:
  assumes "1 \<le> \<bar>q\<bar>" and "\<bar>q\<bar> < overflow_threshold"
  shows "\<exists>r. binary64 q = Fin r \<and> 1 \<le> \<bar>r\<bar> \<and> (0 < r \<longleftrightarrow> 0 < q)"
proof -
  define e where "e = max (ilog2 \<bar>q\<bar>) (- 1022)"
  define u where "u = pow2 (e - 52)"
  define m where "m = round_half_even (\<bar>q\<bar> / u)"
  have q0: "q \<noteq> 0" using assms(1) by auto
  have e: "e = int (halvings \<bar>q\<bar>)" using assms(1) by (simp add: e_def ilog2_def)
  have le: "2 ^ halvings \<bar>q\<bar> \<le> \<bar>q\<bar>" using assms(1) by (rule halvings_le)
  have upos: "0 < u" by (simp add: u_def pow2_pos)
  have "pow2 (52 + (e - 52)) = pow2 52 * pow2 (e - 52)" by (rule pow2_add)
  then have pu: "pow2 e = 2 ^ 52 * u" by (simp add: u_def pow2_def)
  have "pow2 e \<le> \<bar>q\<bar>" using le by (simp add: e pow2_def)
  then have "2 ^ 52 * u \<le> \<bar>q\<bar>" by (simp add: pu)
  then have "of_int (2 ^ 52) \<le> \<bar>q\<bar> / u" using upos by (simp add: pos_le_divide_eq)
  then have m52: "2 ^ 52 \<le> m" unfolding m_def by (rule round_half_even_ge)
  then have "(2::rat) ^ 52 \<le> of_int m"
    by (metis of_int_le_iff of_int_numeral of_int_power)
  then have "2 ^ 52 * u \<le> of_int m * u" using upos by simp
  then have "pow2 e \<le> of_int m * u" by (simp add: pu)
  moreover have "1 \<le> pow2 e" by (simp add: e pow2_def)
  ultimately have r: "1 \<le> of_int m * u" by simp
  have m0: "m \<noteq> 0" using m52 by auto
  have "binary64 q = Fin (if 0 < q then of_int m * u else - (of_int m * u))"
    using assms(2) q0 m0 unfolding m_def u_def e_def by (simp add: binary64_def Let_def)
  with r q0 show ?thesis by auto
qed


subsection \<open>The numbers of the examples\<close>

text \<open>
  \<^verbatim>\<open>10 * 1.02\<close> and \<^verbatim>\<open>10.0 * 1.02\<close> are the float 10.2; \<^verbatim>\<open>9.9 / 10.0\<close> is the float
  0.99, and \<^verbatim>\<open>round((0.99 - 1) * 100, 2)\<close> is \<^verbatim>\<open>-1.0\<close>; \<^verbatim>\<open>10.1 / 10.0\<close> is the float
  1.01, and \<^verbatim>\<open>round((1.01 - 1) * 100, 2)\<close> is \<^verbatim>\<open>1.0\<close>.
\<close>

lemma int_to_float_10: "int_to_float 10 = Inr 10"
  by (simp add: int_to_float_def float_eval)

lemma int_to_float_1: "int_to_float 1 = Inr 1"
  by (simp add: int_to_float_def float_eval)

lemma float_mul_10: "float_mul 10 float_1_02 = Fin (2871044762448691 / 281474976710656)"
  by (simp add: float_1_02_value float_eval)

lemma float_mul_1: "float_mul 1 float_1_02 = Fin (2296835809958953 / 2251799813685248)"
  by (simp add: float_1_02_value float_eval)

lemma round2_9_9: "float_round2 (Fin (double (99 / 10))) = Fin (double (99 / 10))"
  by (simp add: double_9_9 float_eval)


lemma round2_10: "float_round2 (Fin 10) = Fin 10"
  by (simp add: float_eval)

lemma py_div_abc:
  "py_div (PFloat (double (99 / 10))) (PFloat 10) = Inr (Fin (4458563631096791 / 4503599627370496))"
  by (simp add: py_div_def double_9_9 float_eval)

lemma distance_abc: "distance_from_low (Fin (4458563631096791 / 4503599627370496)) = Fin (- 1)"
  by (simp add: distance_from_low_def float_eval)



lemma py_div_cap: "py_div (PInt 50000000) (PFloat 1000000) = Inr (Fin 50)"
  by (simp add: py_div_def int_to_float_def float_eval)

lemma one_decimal_examples:
  "one_decimal (Fin (- 1)) = ascii ''-1.0''"
  "one_decimal (Fin 1) = ascii ''1.0''"
  "one_decimal (Fin 50) = ascii ''50.0''"
  "one_decimal (Fin (double (99 / 10))) = ascii ''9.9''"
  by (simp_all add: one_decimal_def double_9_9 str_int_def ascii_def Let_def
      round_half_even_numeral round_half_even_fraction)
section \<open>The bounded API caller\<close>

lemma attempt_over_limit:
  "max_daily_calls s \<le> api_calls s \<Longrightarrow>
   attempt net url i s = (Inl limit_reached, s\<lparr>api_calls := api_calls s + 1\<rparr>)"
  by (simp add: attempt_def Let_def)

lemma attempt_api_calls: "api_calls (snd (attempt net url i s)) = api_calls s + 1"
  by (simp add: attempt_def Let_def record_event_def split: sum.splits option.splits)

lemma attempt_max_daily_calls:
  "max_daily_calls (snd (attempt net url i s)) = max_daily_calls s"
  by (simp add: attempt_def Let_def record_event_def split: sum.splits option.splits)

lemma py_range_pos: "0 < n \<Longrightarrow> py_range n = 0 # map int [1..<nat n]"
  by (simp add: py_range_def upt_conv_Cons)

lemma py_range_3: "py_range 3 = [0, 1, 2]"
  by (simp add: py_range_def upt_conv_Cons numeral_3_eq_3)

lemma make_api_call_over_limit:
  assumes "max_daily_calls s \<le> api_calls s" and "0 < retries"
  shows "make_api_call net url retries s =
           (Inl limit_reached, s\<lparr>api_calls := api_calls s + 1\<rparr>)"
  using assms
  by (simp add: make_api_call_def py_range_pos attempt_over_limit limit_reached_def)

text \<open>
  C3.  Once the call counter has reached the ceiling of 250 (so also once it exceeds it),
  a call of the bounded API caller fails with the quota error
  \<^verbatim>\<open>Exception("Daily API call limit reached")\<close>.  It is the first attempt that fails:
  no request is sent and no pause is taken (the trace is unchanged), the error is not the
  exhausted-retries error of the retry loop, and the counter stays above the ceiling, so
  the same holds for every later call.
\<close>

theorem quota_ceiling_fails_immediately:
  assumes "max_daily_calls s = 250" and "250 \<le> api_calls s" and "0 < retries"
  shows "fst (make_api_call net url retries s)
           = Inl (Exception (ascii ''Daily API call limit reached''))
         \<and> trace (snd (make_api_call net url retries s)) = trace s
         \<and> api_calls (snd (make_api_call net url retries s)) = api_calls s + 1
         \<and> 250 < api_calls (snd (make_api_call net url retries s))
         \<and> max_daily_calls (snd (make_api_call net url retries s)) = 250"
proof -
  have "max_daily_calls s \<le> api_calls s"
    using assms(1,2) by simp
  then have "make_api_call net url retries s =
               (Inl limit_reached, s\<lparr>api_calls := api_calls s + 1\<rparr>)"
    using assms(3) by (rule make_api_call_over_limit)
  then show ?thesis
    using assms(1,2) by (simp add: limit_reached_def)
qed

theorem quota_ceiling_fails_immediately_witness:
  "max_daily_calls ((StockScanner None)\<lparr>api_calls := 251\<rparr>) = 250
   \<and> 250 \<le> api_calls ((StockScanner None)\<lparr>api_calls := 251\<rparr>)
   \<and> (0::int) < 3
   \<and> fst (make_api_call (\<lambda>n u. Inl (OtherError [])) [] 3
            ((StockScanner None)\<lparr>api_calls := 251\<rparr>))
       = Inl (Exception (ascii ''Daily API call limit reached''))
   \<and> trace (snd (make_api_call (\<lambda>n u. Inl (OtherError [])) [] 3
            ((StockScanner None)\<lparr>api_calls := 251\<rparr>))) = []
   \<and> api_calls (snd (make_api_call (\<lambda>n u. Inl (OtherError [])) [] 3
            ((StockScanner None)\<lparr>api_calls := 251\<rparr>))) = 252"
  using quota_ceiling_fails_immediately
    [of "(StockScanner None)\<lparr>api_calls := 251\<rparr>" 3 "\<lambda>n u. Inl (OtherError [])" "[]"]
  by (simp add: StockScanner_def)

lemma requests_sent_simps [simp]:
  "requests_sent (record_event (Get u) s) = Suc (requests_sent s)"
  "requests_sent (record_event (Sleep d) s) = requests_sent s"
  "requests_sent (s\<lparr>api_calls := n\<rparr>) = requests_sent s"
  by (simp_all add: requests_sent_def record_event_def)

lemma record_event_fields [simp]:
  "api_calls (record_event e s) = api_calls s"
  "max_daily_calls (record_event e s) = max_daily_calls s"
  "api_key (record_event e s) = api_key s"
  by (simp_all add: record_event_def)

lemma attempt_transport_error:
  assumes "api_calls s < max_daily_calls s"
    and "transport_error net (requests_sent s) url = Some m"
  shows "attempt net url i s =
           (Inl (RequestException m), record_event (Get url) (s\<lparr>api_calls := api_calls s + 1\<rparr>))"
  using assms
  by (auto simp add: attempt_def Let_def transport_error_def split: sum.splits error.splits option.splits)

lemma attempt_parsed:
  assumes "api_calls s < max_daily_calls s"
    and "parsed_result net (requests_sent s) url = Some v"
  shows "attempt net url i s =
           (Inr v, record_event (Sleep (2 / 10 * (of_int i + 1)))
                     (record_event (Get url) (s\<lparr>api_calls := api_calls s + 1\<rparr>)))"
  using assms
  by (auto simp add: attempt_def Let_def parsed_result_def split: sum.splits option.splits)

lemma str_int_3: "str_int 3 = ascii ''3''"
  by (simp add: str_int_def ascii_def)

lemma api_loop_retry:
  assumes "attempt net url i s = (Inl (RequestException m), s')" and "i \<noteq> retries - 1"
  shows "api_loop net url retries (i # rest) s
           = api_loop net url retries rest (record_event (Sleep (1 * (of_int i + 1))) s')"
  using assms by simp

lemma api_loop_last:
  assumes "attempt net url i s = (Inl (RequestException m), s')" and "i = retries - 1"
  shows "api_loop net url retries (i # rest) s
           = (Inl (Exception (ascii ''API call failed after '' @ str_int retries
                                @ ascii '' retries: '' @ m)), s')"
  using assms by simp

lemma api_loop_parsed:
  assumes "attempt net url i s = (Inr v, s')"
  shows "api_loop net url retries (i # rest) s = (Inr v, s')"
  using assms by simp

text \<open>
  C5.  The bounded API caller makes up to 3 attempts on transport-level failures.  While
  the counter leaves room for three calls below the ceiling: if the first two requests
  fail at transport level and the third is answered and parsed, the caller returns the
  parsed result; if the third fails at transport level too, the caller fails with
  \<^verbatim>\<open>Exception("API call failed after 3 retries: " + message)\<close>, where the message is
  that of the last transport error.  In both cases the counter has been incremented
  exactly 3 times and exactly 3 requests have been sent.
\<close>

theorem retry_three_attempts:
  assumes "api_calls s + 3 \<le> max_daily_calls s"
    and "transport_error net (requests_sent s) url = Some m1"
    and "transport_error net (requests_sent s + 1) url = Some m2"
  shows "(parsed_result net (requests_sent s + 2) url = Some v \<longrightarrow>
            fst (make_api_call net url 3 s) = Inr v
            \<and> api_calls (snd (make_api_call net url 3 s)) = api_calls s + 3
            \<and> requests_sent (snd (make_api_call net url 3 s)) = requests_sent s + 3)
       \<and> (transport_error net (requests_sent s + 2) url = Some m3 \<longrightarrow>
            fst (make_api_call net url 3 s)
              = Inl (Exception (ascii ''API call failed after 3 retries: '' @ m3))
            \<and> api_calls (snd (make_api_call net url 3 s)) = api_calls s + 3
            \<and> requests_sent (snd (make_api_call net url 3 s)) = requests_sent s + 3)"
proof -
  define s1 where "s1 = record_event (Sleep (1 * (of_int 0 + 1)))
               (record_event (Get url) (s\<lparr>api_calls := api_calls s + 1\<rparr>))"
  define s2 where "s2 = record_event (Sleep (1 * (of_int 1 + 1)))
               (record_event (Get url) (s1\<lparr>api_calls := api_calls s1 + 1\<rparr>))"
  have f1: "api_calls s1 = api_calls s + 1" "max_daily_calls s1 = max_daily_calls s"
    "requests_sent s1 = requests_sent s + 1"
    by (simp_all add: s1_def)
  have f2: "api_calls s2 = api_calls s + 2" "max_daily_calls s2 = max_daily_calls s"
    "requests_sent s2 = requests_sent s + 2"
    by (simp_all add: s2_def f1)
  have a0: "attempt net url 0 s =
              (Inl (RequestException m1), record_event (Get url) (s\<lparr>api_calls := api_calls s + 1\<rparr>))"
    using assms(1,2) by (intro attempt_transport_error) simp_all
  have a1: "attempt net url 1 s1 =
              (Inl (RequestException m2), record_event (Get url) (s1\<lparr>api_calls := api_calls s1 + 1\<rparr>))"
    using assms(1,3) by (intro attempt_transport_error) (simp_all add: f1)
  have "api_loop net url 3 [0, 1, 2] s = api_loop net url 3 [1, 2] s1"
    unfolding s1_def by (rule api_loop_retry [OF a0]) simp
  also have "\<dots> = api_loop net url 3 [2] s2"
    unfolding s2_def by (rule api_loop_retry [OF a1]) simp
  finally have two: "make_api_call net url 3 s = api_loop net url 3 [2] s2"
    by (simp add: make_api_call_def py_range_3)
  show ?thesis
  proof (intro conjI impI)
    assume ok: "parsed_result net (requests_sent s + 2) url = Some v"
    have "attempt net url 2 s2 =
            (Inr v, record_event (Sleep (2 / 10 * (of_int 2 + 1)))
                      (record_event (Get url) (s2\<lparr>api_calls := api_calls s2 + 1\<rparr>)))"
      using assms(1) ok by (intro attempt_parsed) (simp_all add: f2)
    from api_loop_parsed [OF this] two
    have r: "make_api_call net url 3 s =
            (Inr v, record_event (Sleep (2 / 10 * (of_int 2 + 1)))
                      (record_event (Get url) (s2\<lparr>api_calls := api_calls s2 + 1\<rparr>)))"
      by simp
    show "fst (make_api_call net url 3 s) = Inr v" using r by simp
    show "api_calls (snd (make_api_call net url 3 s)) = api_calls s + 3"
      using r by (simp add: f2)
    show "requests_sent (snd (make_api_call net url 3 s)) = requests_sent s + 3"
      using r by (simp add: f2)
  next
    assume bad: "transport_error net (requests_sent s + 2) url = Some m3"
    have "attempt net url 2 s2 =
            (Inl (RequestException m3), record_event (Get url) (s2\<lparr>api_calls := api_calls s2 + 1\<rparr>))"
      using assms(1) bad by (intro attempt_transport_error) (simp_all add: f2)
    from api_loop_last [OF this, of 3 "[]"] two
    have r: "make_api_call net url 3 s =
            (Inl (Exception (ascii ''API call failed after '' @ str_int 3 @ ascii '' retries: '' @ m3)),
             record_event (Get url) (s2\<lparr>api_calls := api_calls s2 + 1\<rparr>))"
      by simp
    show "fst (make_api_call net url 3 s)
              = Inl (Exception (ascii ''API call failed after 3 retries: '' @ m3))"
      using r by (simp add: str_int_3 ascii_def)
    show "api_calls (snd (make_api_call net url 3 s)) = api_calls s + 3"
      using r by (simp add: f2)
    show "requests_sent (snd (make_api_call net url 3 s)) = requests_sent s + 3"
      using r by (simp add: f2)
  qed
qed

theorem retry_three_attempts_witness:
  "api_calls (StockScanner None) + 3 \<le> max_daily_calls (StockScanner None)
   \<and> transport_error (flaky_network (PList [])) (requests_sent (StockScanner None)) []
       = Some (ascii ''timed out'')
   \<and> transport_error (flaky_network (PList [])) (requests_sent (StockScanner None) + 1) []
       = Some (ascii ''timed out'')
   \<and> parsed_result (flaky_network (PList [])) (requests_sent (StockScanner None) + 2) []
       = Some (PList [])
   \<and> fst (make_api_call (flaky_network (PList [])) [] 3 (StockScanner None)) = Inr (PList [])
   \<and> api_calls (snd (make_api_call (flaky_network (PList [])) [] 3 (StockScanner None))) = 3
   \<and> transport_error dead_network (requests_sent (StockScanner None)) []
       = Some (ascii ''timed out'')
   \<and> transport_error dead_network (requests_sent (StockScanner None) + 1) []
       = Some (ascii ''timed out'')
   \<and> transport_error dead_network (requests_sent (StockScanner None) + 2) []
       = Some (ascii ''timed out'')
   \<and> fst (make_api_call dead_network [] 3 (StockScanner None))
       = Inl (Exception (ascii ''API call failed after 3 retries: timed out''))
   \<and> api_calls (snd (make_api_call dead_network [] 3 (StockScanner None))) = 3"
  using retry_three_attempts
      [of "StockScanner None" "flaky_network (PList [])" "[]" "ascii ''timed out''"
          "ascii ''timed out''" "PList []" "ascii ''timed out''"]
    retry_three_attempts
      [of "StockScanner None" dead_network "[]" "ascii ''timed out''"
          "ascii ''timed out''" "PList []" "ascii ''timed out''"]
  by (simp add: StockScanner_def requests_sent_def transport_error_def parsed_result_def
      flaky_network_def dead_network_def ascii_def)

section \<open>Invariants of a run\<close>

lemma api_loop_mono: "api_calls s \<le> api_calls (snd (api_loop net url retries idxs s))"
proof (induction idxs arbitrary: s)
  case Nil
  show ?case by simp
next
  case (Cons i rest)
  obtain res s' where a: "attempt net url i s = (res, s')"
    by (cases "attempt net url i s")
  have c: "api_calls s' = api_calls s + 1"
    using attempt_api_calls [of net url i s] a by simp
  have "api_calls s' \<le> api_calls (snd (api_loop net url retries rest
          (record_event (Sleep (1 * (of_int i + 1))) s')))"
    using Cons.IH [of "record_event (Sleep (1 * (of_int i + 1))) s'"] by simp
  with a c show ?case
    by (simp split: sum.splits error.splits)
qed

lemma make_api_call_mono: "api_calls s \<le> api_calls (snd (make_api_call net url retries s))"
  by (simp add: make_api_call_def api_loop_mono)

lemma check_api_quota_state: "snd (check_api_quota net s) = record_event (Get (quota_url s)) s"
  by (simp add: check_api_quota_def quota_try_def split: sum.splits)

lemma get_initial_stocks_state:
  "snd (get_initial_stocks net s) = snd (make_api_call net (quote_url s) 3 s)"
  by (simp add: get_initial_stocks_def split: prod.splits sum.splits)

lemma scan_stocks_state: "snd (scan_stocks net yf fm s) = snd (get_initial_stocks net s)"
  by (simp add: scan_stocks_def split: prod.splits)

lemma main_state:
  "snd (main env net yf fm now) = snd (check_api_quota net (StockScanner (env (ascii ''FMP_API_KEY''))))
   \<or> snd (main env net yf fm now)
       = snd (scan_stocks net yf fm (snd (check_api_quota net (StockScanner (env (ascii ''FMP_API_KEY''))))))"
  by (simp add: main_def split: prod.splits)

lemma ebind_Inr: "ebind m f = Inr y \<longleftrightarrow> (\<exists>x. m = Inr x \<and> f x = Inr y)"
  by (cases m) (simp_all add: ebind_def)

lemma enrich_info_symbol:
  "enrich_info fm stock info = Inr (Some r) \<Longrightarrow> Symbol r = symbol stock"
  by (auto simp add: enrich_info_def ebind_Inr split: if_splits)

lemma enrich_one_symbol:
  "enrich_one yf fm stock = Inr (Some r) \<Longrightarrow> Symbol r = symbol stock"
  by (auto simp add: enrich_one_def ebind_Inr dest: enrich_info_symbol)

lemma enrich_loop_symbols:
  "r \<in> set (enrich_loop yf fm stocks acc) \<Longrightarrow>
   r \<in> set acc \<or> Symbol r \<in> symbol ` set stocks"
proof (induction stocks arbitrary: acc)
  case Nil
  then show ?case by simp
next
  case (Cons stock rest)
  show ?case
  proof (cases "enrich_one yf fm stock")
    case (Inl e)
    with Cons.prems have "r \<in> set (enrich_loop yf fm rest acc)" by simp
    from Cons.IH [OF this] show ?thesis by auto
  next
    case (Inr res)
    show ?thesis
    proof (cases res)
      case None
      with Inr Cons.prems have "r \<in> set (enrich_loop yf fm rest acc)" by simp
      from Cons.IH [OF this] show ?thesis by auto
    next
      case (Some info)
      with Inr Cons.prems have "r \<in> set (enrich_loop yf fm rest (acc @ [info]))" by simp
      from Cons.IH [OF this] have "r \<in> set acc \<or> r = info \<or> Symbol r \<in> symbol ` set rest"
        by auto
      moreover have "Symbol info = symbol stock"
        using Inr Some by (intro enrich_one_symbol [of yf fm]) simp
      ultimately show ?thesis by auto
    qed
  qed
qed

text \<open>
  C8.  Two invariants of every run.  (1) Every record the enricher returns carries the
  symbol of one of the stocks it was given.  (2) The call counter never decreases: not
  across \<^verbatim>\<open>_make_api_call\<close>, \<^verbatim>\<open>check_api_quota\<close>, \<^verbatim>\<open>get_initial_stocks\<close> or
  \<^verbatim>\<open>scan_stocks\<close>, and it is never negative at the end of \<^verbatim>\<open>main\<close>, which starts
  it at 0; and with the ceiling at 250, an attempt whose increment would take the counter
  above 250 aborts with the quota error before any request is sent, and so does the call
  it belongs to.
\<close>

theorem run_invariants:
  "(\<forall>r \<in> set (enrich_stock_data yf fm stocks). Symbol r \<in> symbol ` set stocks)
   \<and> api_calls s \<le> api_calls (snd (make_api_call net url retries s))
   \<and> api_calls s \<le> api_calls (snd (check_api_quota net s))
   \<and> api_calls s \<le> api_calls (snd (get_initial_stocks net s))
   \<and> api_calls s \<le> api_calls (snd (scan_stocks net yf fm s))
   \<and> 0 \<le> api_calls (snd (main env net yf fm now))
   \<and> (max_daily_calls s = 250 \<and> 250 < api_calls s + 1 \<longrightarrow>
        fst (attempt net url i s) = Inl (Exception (ascii ''Daily API call limit reached''))
        \<and> trace (snd (attempt net url i s)) = trace s
        \<and> fst (make_api_call net url 3 s) = Inl (Exception (ascii ''Daily API call limit reached'')))"
proof (intro conjI ballI impI)
  fix r assume "r \<in> set (enrich_stock_data yf fm stocks)"
  then show "Symbol r \<in> symbol ` set stocks"
    using enrich_loop_symbols [of r yf fm stocks "[]"] by (simp add: enrich_stock_data_def)
next
  show "api_calls s \<le> api_calls (snd (make_api_call net url retries s))"
    by (rule make_api_call_mono)
  show "api_calls s \<le> api_calls (snd (check_api_quota net s))"
    by (simp add: check_api_quota_state)
  show g: "api_calls s \<le> api_calls (snd (get_initial_stocks net s))"
    by (simp add: get_initial_stocks_state make_api_call_mono)
  show "api_calls s \<le> api_calls (snd (scan_stocks net yf fm s))"
    by (simp add: scan_stocks_state get_initial_stocks_state make_api_call_mono)
  let ?s0 = "StockScanner (env (ascii ''FMP_API_KEY''))"
  have q: "api_calls (snd (check_api_quota net ?s0)) = 0"
    by (simp add: check_api_quota_state StockScanner_def)
  have "0 \<le> api_calls (snd (scan_stocks net yf fm (snd (check_api_quota net ?s0))))"
    using make_api_call_mono [of "snd (check_api_quota net ?s0)" net
        "quote_url (snd (check_api_quota net ?s0))" 3] q
    by (simp add: scan_stocks_state get_initial_stocks_state)
  with q main_state [of env net yf fm now]
  show "0 \<le> api_calls (snd (main env net yf fm now))" by auto
next
  assume h: "max_daily_calls s = 250 \<and> 250 < api_calls s + 1"
  then have le: "max_daily_calls s \<le> api_calls s" by simp
  show "fst (attempt net url i s) = Inl (Exception (ascii ''Daily API call limit reached''))"
    using attempt_over_limit [OF le] by (simp add: limit_reached_def)
  show "trace (snd (attempt net url i s)) = trace s"
    using attempt_over_limit [OF le] by simp
  show "fst (make_api_call net url 3 s) = Inl (Exception (ascii ''Daily API call limit reached''))"
    using make_api_call_over_limit [OF le, of 3] by (simp add: limit_reached_def)
qed

lemma abc_enriched_symbol:
  "map Symbol (enrich_stock_data abc_only plain_formats [abc_stock]) = [PStr (ascii ''ABC'')]"
  by (simp add: enrich_stock_data_def enrich_one_def enrich_info_def ebind_def abc_only_def
      abc_stock_def abc_info_def dict_get_def in_band_def not_available_def ascii_def
      py_div_cap py_div_abc round2_9_9 round2_10 del: float_round2.simps)

theorem run_invariants_witness:
  "set (enrich_stock_data abc_only plain_formats [abc_stock]) \<noteq> {}
   \<and> Symbol (hd (enrich_stock_data abc_only plain_formats [abc_stock])) \<in> symbol ` set [abc_stock]
   \<and> api_calls (StockScanner None)
       \<le> api_calls (snd (make_api_call dead_network [] 3 (StockScanner None)))
   \<and> max_daily_calls ((StockScanner None)\<lparr>api_calls := 250\<rparr>) = 250
   \<and> 250 < api_calls ((StockScanner None)\<lparr>api_calls := 250\<rparr>) + 1
   \<and> fst (attempt dead_network [] 0 ((StockScanner None)\<lparr>api_calls := 250\<rparr>))
       = Inl (Exception (ascii ''Daily API call limit reached''))
   \<and> trace (snd (attempt dead_network [] 0 ((StockScanner None)\<lparr>api_calls := 250\<rparr>))) = []"
  using run_invariants [of abc_only plain_formats "[abc_stock]" "StockScanner None" dead_network "[]" 3
      "\<lambda>k. None" "[]" 0]
    run_invariants [of abc_only plain_formats "[abc_stock]" "(StockScanner None)\<lparr>api_calls := 250\<rparr>"
      dead_network "[]" 3 "\<lambda>k. None" "[]" 0]
    abc_enriched_symbol
  by (auto simp add: StockScanner_def)

section \<open>The quota gate\<close>

lemma remaining_ok_dict:
  "remaining_ok (PDict d) =
     (case map_of d (ascii ''remainingCalls'') of
        None \<Rightarrow> Inr False
      | Some v \<Rightarrow> py_gt_int v 5)"
proof (cases "map_of d (ascii ''remainingCalls'')")
  case None
  then have "ascii ''remainingCalls'' \<notin> fst ` set d"
    by (simp add: map_of_eq_None_iff)
  with None show ?thesis by (simp add: remaining_ok_def)
next
  case (Some v)
  then have "ascii ''remainingCalls'' \<in> fst ` set d"
    by (metis map_of_eq_None_iff option.distinct(1))
  with Some show ?thesis by (simp add: remaining_ok_def)
qed

lemma remaining_ok_True:
  "remaining_ok data = Inr True \<longleftrightarrow>
     (\<exists>d v x. data = PDict d \<and> map_of d (ascii ''remainingCalls'') = Some v
        \<and> num_of v = Some x \<and> 5 < x)"
proof (cases data)
  case (PDict d)
  then show ?thesis
    by (auto simp add: remaining_ok_dict py_gt_int_def split: option.splits)
next
  case (PList xs)
  then show ?thesis by (simp add: remaining_ok_def split: bool.splits)
next
  case (PStr t)
  then show ?thesis by (simp add: remaining_ok_def split: bool.splits)
qed (simp_all add: remaining_ok_def)

lemma check_api_quota_True:
  "fst (check_api_quota net s) \<longleftrightarrow>
     (\<exists>r. net (requests_sent s) (quota_url s) = Inr r \<and>
        (\<exists>data. json_body r = Inr data \<and> remaining_ok data = Inr True))"
  by (auto simp add: check_api_quota_def quota_try_def split: sum.splits)

text \<open>
  C9.  The quota gate \<^verbatim>\<open>check_api_quota\<close> returns \<^verbatim>\<open>True\<close> exactly when the request
  is answered, the answer parses to a dictionary with a \<^verbatim>\<open>remainingCalls\<close> entry, and
  that entry is a number above 5.  So it returns \<^verbatim>\<open>False\<close> when the request fails, when
  the answer does not parse, and when the entry is missing; and whatever exception the
  body of its \<^verbatim>\<open>try\<close> raises, the gate returns \<^verbatim>\<open>False\<close> instead of raising.
\<close>

theorem check_api_quota_fail_closed:
  "(fst (check_api_quota net s) \<longleftrightarrow>
      (\<exists>r d v x. net (requests_sent s) (quota_url s) = Inr r \<and> json_body r = Inr (PDict d)
         \<and> map_of d (ascii ''remainingCalls'') = Some v \<and> num_of v = Some x \<and> 5 < x))
   \<and> (net (requests_sent s) (quota_url s) = Inl e \<longrightarrow> \<not> fst (check_api_quota net s))
   \<and> (net (requests_sent s) (quota_url s) = Inr r \<and> json_body r = Inl e
        \<longrightarrow> \<not> fst (check_api_quota net s))
   \<and> (net (requests_sent s) (quota_url s) = Inr r \<and> json_body r = Inr (PDict d)
        \<and> map_of d (ascii ''remainingCalls'') = None \<longrightarrow> \<not> fst (check_api_quota net s))
   \<and> (fst (quota_try net s) = Inl e \<longrightarrow> \<not> fst (check_api_quota net s))"
proof (intro conjI impI)
  show "fst (check_api_quota net s) \<longleftrightarrow>
      (\<exists>r d v x. net (requests_sent s) (quota_url s) = Inr r \<and> json_body r = Inr (PDict d)
         \<and> map_of d (ascii ''remainingCalls'') = Some v \<and> num_of v = Some x \<and> 5 < x)"
    unfolding check_api_quota_True remaining_ok_True by blast
next
  assume "net (requests_sent s) (quota_url s) = Inl e"
  then show "\<not> fst (check_api_quota net s)" by (simp add: check_api_quota_True)
next
  assume "net (requests_sent s) (quota_url s) = Inr r \<and> json_body r = Inl e"
  then show "\<not> fst (check_api_quota net s)" by (simp add: check_api_quota_True)
next
  assume "net (requests_sent s) (quota_url s) = Inr r \<and> json_body r = Inr (PDict d)
        \<and> map_of d (ascii ''remainingCalls'') = None"
  then show "\<not> fst (check_api_quota net s)"
    by (simp add: check_api_quota_True remaining_ok_True)
next
  assume "fst (quota_try net s) = Inl e"
  then show "\<not> fst (check_api_quota net s)"
    by (cases "quota_try net s") (simp add: check_api_quota_def)
qed

theorem check_api_quota_fail_closed_witness:
  "fst (check_api_quota (always_reply (PDict [(ascii ''remainingCalls'', PInt 100)])) (StockScanner None))
   \<and> \<not> fst (check_api_quota (always_reply (PDict [(ascii ''remainingCalls'', PInt 3)])) (StockScanner None))
   \<and> dead_network (requests_sent (StockScanner None)) (quota_url (StockScanner None))
        = Inl (RequestException (ascii ''timed out''))
   \<and> \<not> fst (check_api_quota dead_network (StockScanner None))
   \<and> garbled_reply (requests_sent (StockScanner None)) (quota_url (StockScanner None))
        = Inr \<lparr>http_error = None, json_body = Inl ValueError\<rparr>
   \<and> \<not> fst (check_api_quota garbled_reply (StockScanner None))
   \<and> map_of [(ascii ''Error Message'', PStr (ascii ''Invalid API KEY.''))] (ascii ''remainingCalls'') = None
   \<and> \<not> fst (check_api_quota
              (always_reply (PDict [(ascii ''Error Message'', PStr (ascii ''Invalid API KEY.''))]))
              (StockScanner None))
   \<and> fst (quota_try garbled_reply (StockScanner None)) = Inl ValueError"
  using check_api_quota_fail_closed
      [of "always_reply (PDict [(ascii ''remainingCalls'', PInt 100)])" "StockScanner None"]
    check_api_quota_fail_closed
      [of "always_reply (PDict [(ascii ''remainingCalls'', PInt 3)])" "StockScanner None"]
    check_api_quota_fail_closed
      [of dead_network "StockScanner None" "RequestException (ascii ''timed out'')"]
    check_api_quota_fail_closed
      [of garbled_reply "StockScanner None" ValueError "\<lparr>http_error = None, json_body = Inl ValueError\<rparr>"]
    check_api_quota_fail_closed
      [of "always_reply (PDict [(ascii ''Error Message'', PStr (ascii ''Invalid API KEY.''))])"
          "StockScanner None" ValueError
          "\<lparr>http_error = None, json_body = Inr (PDict [(ascii ''Error Message'', PStr (ascii ''Invalid API KEY.''))])\<rparr>"
          "[(ascii ''Error Message'', PStr (ascii ''Invalid API KEY.''))]"]
  by (simp add: always_reply_def garbled_reply_def dead_network_def quota_try_def ascii_def)

section \<open>The initial filter\<close>

lemma truthy_num: "num_of v = Some x \<Longrightarrow> truthy v \<longleftrightarrow> x \<noteq> 0"
  by (cases v) (auto split: if_splits)

lemma falsy_not_num: "\<not> truthy v \<Longrightarrow> num_of v = None \<or> num_of v = Some 0"
  by (cases v) auto

lemma int_to_float_overflow:
  "overflow_threshold \<le> \<bar>rat_of_int i\<bar> \<Longrightarrow> int_to_float i = Inl OverflowError"
  by (simp add: int_to_float_def binary64_overflow)

lemma int_to_float_finite:
  assumes "\<bar>rat_of_int i\<bar> < overflow_threshold"
  shows "\<exists>y. int_to_float i = Inr y"
  using binary64_finite [OF assms]
  by (cases "binary64 (rat_of_int i)") (simp_all add: int_to_float_def)

lemma int_to_float_nonzero:
  assumes "int_to_float i = Inr y" and "i \<noteq> 0"
  shows "y \<noteq> 0"
proof -
  have small: "\<bar>rat_of_int i\<bar> < overflow_threshold"
  proof (rule ccontr)
    assume "\<not> \<bar>rat_of_int i\<bar> < overflow_threshold"
    then have "int_to_float i = Inl OverflowError"
      by (intro int_to_float_overflow) simp
    with assms(1) show False by simp
  qed
  have "1 \<le> \<bar>i\<bar>" using assms(2) by simp
  then have "rat_of_int 1 \<le> rat_of_int \<bar>i\<bar>" by (simp only: of_int_le_iff)
  then have "1 \<le> \<bar>rat_of_int i\<bar>" by simp
  from binary64_magnitude [OF this small]
  obtain r where "binary64 (rat_of_int i) = Fin r" "1 \<le> \<bar>r\<bar>" by blast
  with assms(1) show ?thesis by (auto simp add: int_to_float_def)
qed

lemma int_to_float_0: "int_to_float 0 = Inr 0"
  by (simp add: int_to_float_def binary64_def)

lemma to_float_TypeError: "num_of v = None \<Longrightarrow> to_float v = Inl TypeError"
  by (cases v) simp_all

lemma to_float_overflow: "too_large v \<Longrightarrow> to_float v = Inl OverflowError"
  by (cases v) (simp_all add: int_to_float_overflow)

lemma to_float_Inr:
  assumes "num_of v = Some x" and "\<not> too_large v"
  shows "\<exists>y. to_float v = Inr y"
proof (cases v)
  case (PInt i)
  with assms(2) have "\<bar>rat_of_int i\<bar> < overflow_threshold" by simp
  from int_to_float_finite [OF this] PInt show ?thesis by simp
qed (use assms in simp_all)

lemma to_float_num:
  assumes "to_float v = Inr y"
  shows "\<exists>x. num_of v = Some x \<and> \<not> too_large v"
proof (cases v)
  case (PInt i)
  show ?thesis
  proof (cases "too_large v")
    case True
    from to_float_overflow [OF this] assms show ?thesis by simp
  next
    case False
    with PInt show ?thesis by simp
  qed
qed (use assms in simp_all)

lemma to_float_nonzero:
  assumes "to_float v = Inr y" and "num_of v = Some x" and "x \<noteq> 0"
  shows "y \<noteq> 0"
proof (cases v)
  case (PInt i)
  with assms have "int_to_float i = Inr y" "i \<noteq> 0" by simp_all
  then show ?thesis by (rule int_to_float_nonzero)
qed (use assms in \<open>auto split: if_splits\<close>)

lemma to_float_zero:
  assumes "to_float v = Inr y" and "num_of v = Some 0"
  shows "y = 0"
proof (cases v)
  case (PInt i)
  with assms show ?thesis by (simp add: int_to_float_0)
qed (use assms in \<open>auto split: if_splits\<close>)

lemma too_large_truthy: "too_large v \<Longrightarrow> truthy v"
proof (cases v)
  case (PInt i)
  assume "too_large v"
  with PInt overflow_threshold_pos have "0 < \<bar>rat_of_int i\<bar>" by simp
  then show ?thesis using PInt by simp
qed simp_all

text \<open>
  One quote object.  Unless its year low overflows, the body of the inner \<^verbatim>\<open>try\<close>
  gives what \<open>accepted\<close> says, or raises the \<^verbatim>\<open>TypeError\<close> that skips the quote.
\<close>

lemma scan_quote_dict:
  assumes "\<not> overflowing d"
  shows "scan_quote (PDict d) = Inr (accepted (PDict d))
         \<or> (scan_quote (PDict d) = Inl TypeError \<and> accepted (PDict d) = None)"
proof -
  let ?p = "dict_get d (ascii ''price'') (PInt 0)"
  let ?y = "dict_get d (ascii ''yearLow'') (PInt 0)"
  show ?thesis
  proof (cases "truthy ?p \<and> truthy ?y")
    case False
    then have "\<not> near_low d"
      using falsy_not_num [of ?p] falsy_not_num [of ?y]
      by (auto simp add: near_low_def passes_filter_def split: option.splits sum.splits)
    with False show ?thesis
      by (auto simp add: scan_quote_def)
  next
    case True
    then have nl: "\<not> too_large ?y" using assms by (simp add: overflowing_def)
    show ?thesis
    proof (cases "num_of ?y")
      case None
      then have "to_float ?y = Inl TypeError" by (rule to_float_TypeError)
      then show ?thesis using True None
        by (simp add: scan_quote_def py_mul_float_def near_low_def passes_filter_def
            split: option.splits)
    next
      case y0: (Some y0)
      from to_float_Inr [OF y0 nl] obtain y where y: "to_float ?y = Inr y" by blast
      show ?thesis
      proof (cases "num_of ?p")
        case None
        then show ?thesis using True y0 y
          by (simp add: scan_quote_def py_mul_float_def py_le_float_def near_low_def
              passes_filter_def)
      next
        case p: (Some p)
        have "p \<noteq> 0" "y0 \<noteq> 0"
          using True truthy_num [OF p] truthy_num [OF y0] by simp_all
        then show ?thesis using True y0 y p
          by (simp add: scan_quote_def py_mul_float_def py_le_float_def near_low_def
              passes_filter_def candidate_of_def)
      qed
    qed
  qed
qed

lemma scan_quote_overflowing:
  assumes "overflowing d"
  shows "scan_quote (PDict d) = Inl OverflowError"
proof -
  let ?p = "dict_get d (ascii ''price'') (PInt 0)"
  let ?y = "dict_get d (ascii ''yearLow'') (PInt 0)"
  have p: "truthy ?p" and l: "too_large ?y" using assms by (simp_all add: overflowing_def)
  have y: "truthy ?y" using l by (rule too_large_truthy)
  have "to_float ?y = Inl OverflowError" using l by (rule to_float_overflow)
  then show ?thesis using p y by (simp add: scan_quote_def py_mul_float_def)
qed

lemma quotes_loop_dicts:
  "\<forall>q \<in> set qs. is_dict q \<Longrightarrow> \<forall>d. PDict d \<in> set qs \<longrightarrow> \<not> overflowing d \<Longrightarrow>
   quotes_loop qs acc = Inr (acc @ List.map_filter accepted qs)"
proof (induction qs arbitrary: acc)
  case Nil
  show ?case by simp
next
  case (Cons q qs)
  then obtain d where q: "q = PDict d" by (cases q) simp_all
  have rest: "\<forall>q \<in> set qs. is_dict q" "\<forall>d. PDict d \<in> set qs \<longrightarrow> \<not> overflowing d"
    using Cons.prems by simp_all
  have "\<not> overflowing d" using Cons.prems(2) q by simp
  from scan_quote_dict [OF this] show ?case
  proof
    assume "scan_quote (PDict d) = Inr (accepted (PDict d))"
    then show ?thesis
      using Cons.IH [OF rest] q by simp
  next
    assume "scan_quote (PDict d) = Inl TypeError \<and> accepted (PDict d) = None"
    then show ?thesis
      using Cons.IH [OF rest] q by (simp split: if_splits)
  qed
qed

lemma quotes_loop_overflow:
  "\<forall>q \<in> set qs. is_dict q \<Longrightarrow> \<exists>d. PDict d \<in> set qs \<and> overflowing d \<Longrightarrow>
   quotes_loop qs acc = Inl OverflowError"
proof (induction qs arbitrary: acc)
  case Nil
  then show ?case by simp
next
  case (Cons q qs)
  then obtain d where q: "q = PDict d" by (cases q) simp_all
  have rest: "\<forall>q \<in> set qs. is_dict q" using Cons.prems by simp
  show ?case
  proof (cases "overflowing d")
    case True
    from scan_quote_overflowing [OF this] show ?thesis using q by simp
  next
    case False
    then have ex: "\<exists>d. PDict d \<in> set qs \<and> overflowing d"
      using Cons.prems(2) q by auto
    from scan_quote_dict [OF False] show ?thesis
    proof
      assume "scan_quote (PDict d) = Inr (accepted (PDict d))"
      then show ?thesis
        using Cons.IH [OF rest ex] q by simp
    next
      assume "scan_quote (PDict d) = Inl TypeError \<and> accepted (PDict d) = None"
      then show ?thesis
        using Cons.IH [OF rest ex] q by simp
    qed
  qed
qed

lemma candidate_of_inj: "candidate_of d = candidate_of d' \<Longrightarrow> near_low d = near_low d'"
  by (simp add: candidate_of_def near_low_def)

lemma set_map_filter_accepted:
  assumes "PDict d \<in> set qs"
  shows "candidate_of d \<in> set (List.map_filter accepted qs) \<longleftrightarrow> near_low d"
proof
  assume "candidate_of d \<in> set (List.map_filter accepted qs)"
  then obtain q where acc: "accepted q = Some (candidate_of d)"
    by (auto simp add: List.map_filter_def)
  have "\<exists>d'. near_low d' \<and> candidate_of d' = candidate_of d"
    using acc by (cases q) (auto split: if_splits)
  then obtain d' where "near_low d'" "candidate_of d' = candidate_of d"
    by blast
  then show "near_low d" using candidate_of_inj by metis
next
  assume "near_low d"
  then have "accepted (PDict d) = Some (candidate_of d)" by simp
  with assms show "candidate_of d \<in> set (List.map_filter accepted qs)"
    by (force simp add: List.map_filter_def)
qed

lemma near_low_positive:
  assumes "num_of (dict_get d (ascii ''price'') (PInt 0)) = Some p"
    and "to_float (dict_get d (ascii ''yearLow'') (PInt 0)) = Inr y"
    and "0 < p" and "0 < y"
  shows "near_low d \<longleftrightarrow> le_fl p (binary64 (y * float_1_02))"
proof -
  from to_float_num [OF assms(2)] obtain y0
    where y0: "num_of (dict_get d (ascii ''yearLow'') (PInt 0)) = Some y0" by blast
  have "y0 \<noteq> 0" using to_float_zero [OF assms(2)] y0 assms(4) by auto
  moreover have "y * float_1_02 \<noteq> 0" using assms(4) by (simp add: float_1_02_value)
  ultimately show ?thesis
    using assms y0 by (simp add: near_low_def passes_filter_def float_mul_def)
qed

lemma near_low_numbers:
  assumes "num_of (dict_get d (ascii ''price'') (PInt 0)) \<in> {None, Some 0}
           \<or> num_of (dict_get d (ascii ''yearLow'') (PInt 0)) \<in> {None, Some 0}"
  shows "\<not> near_low d"
  using assms by (auto simp add: near_low_def passes_filter_def split: option.splits sum.splits)

lemma make_api_call_always_reply:
  assumes "api_calls s < max_daily_calls s"
  shows "make_api_call (always_reply v) url 3 s =
           (Inr v, record_event (Sleep (2 / 10 * (of_int 0 + 1)))
                     (record_event (Get url) (s\<lparr>api_calls := api_calls s + 1\<rparr>)))"
proof -
  have "parsed_result (always_reply v) (requests_sent s) url = Some v"
    by (simp add: parsed_result_def always_reply_def)
  from attempt_parsed [OF assms this, of 0] show ?thesis
    by (simp add: make_api_call_def py_range_3 del: of_int_0)
qed

text \<open>
  C1, as amended.  Let the snapshot call succeed and return a list of JSON objects.  If
  one of them has a price that is not falsy and, as year low, an int too large to be
  converted to a float, \<^verbatim>\<open>year_low * 1.02\<close> raises \<^verbatim>\<open>OverflowError\<close>, which the inner
  handler does not catch, and \<^verbatim>\<open>get_initial_stocks\<close> returns the empty list.  Otherwise
  it returns, in order, the candidates of exactly the quotes whose price and year low are
  both numbers (\<^verbatim>\<open>True\<close> counting as 1), both different from zero, with
  \<^verbatim>\<open>price <= yearLow * 1.02\<close> as Python computes it: the year low is converted to a
  float, the product with the float \<^verbatim>\<open>1.02\<close> is rounded to the nearest float, and the
  price is compared exactly with that float.  So a quote with positive price and positive
  year low is a candidate if and only if its price is at most that rounded product, and a
  quote whose price or year low is missing, not a number or zero is never one.  The sign
  is not tested: a negative price or year low does not exclude a quote.
\<close>

theorem initial_filter:
  assumes "fst (make_api_call net (quote_url s) 3 s) = Inr (PList qs)"
    and "\<forall>q \<in> set qs. is_dict q"
  shows "((\<exists>d. PDict d \<in> set qs \<and> overflowing d) \<longrightarrow> fst (get_initial_stocks net s) = [])
         \<and> ((\<forall>d. PDict d \<in> set qs \<longrightarrow> \<not> overflowing d) \<longrightarrow>
              fst (get_initial_stocks net s) = List.map_filter accepted qs
              \<and> (\<forall>d. PDict d \<in> set qs \<longrightarrow>
                    (candidate_of d \<in> set (fst (get_initial_stocks net s)) \<longleftrightarrow> near_low d))
              \<and> (\<forall>d p y. PDict d \<in> set qs
                    \<and> num_of (dict_get d (ascii ''price'') (PInt 0)) = Some p
                    \<and> to_float (dict_get d (ascii ''yearLow'') (PInt 0)) = Inr y
                    \<and> 0 < p \<and> 0 < y \<longrightarrow>
                    (candidate_of d \<in> set (fst (get_initial_stocks net s))
                       \<longleftrightarrow> le_fl p (binary64 (y * float_1_02))))
              \<and> (\<forall>d. PDict d \<in> set qs
                    \<and> (num_of (dict_get d (ascii ''price'') (PInt 0)) \<in> {None, Some 0}
                       \<or> num_of (dict_get d (ascii ''yearLow'') (PInt 0)) \<in> {None, Some 0})
                    \<longrightarrow> candidate_of d \<notin> set (fst (get_initial_stocks net s))))"
proof (intro conjI impI)
  obtain s' where m: "make_api_call net (quote_url s) 3 s = (Inr (PList qs), s')"
    using assms(1) by (cases "make_api_call net (quote_url s) 3 s") simp
  {
    assume "\<exists>d. PDict d \<in> set qs \<and> overflowing d"
    from quotes_loop_overflow [OF assms(2) this, of "[]"]
    show "fst (get_initial_stocks net s) = []"
      using m by (simp add: get_initial_stocks_def)
  }
  assume safe: "\<forall>d. PDict d \<in> set qs \<longrightarrow> \<not> overflowing d"
  show r: "fst (get_initial_stocks net s) = List.map_filter accepted qs"
    using quotes_loop_dicts [OF assms(2) safe, of "[]"] m by (simp add: get_initial_stocks_def)
  have mem: "\<And>d. PDict d \<in> set qs \<Longrightarrow>
      candidate_of d \<in> set (fst (get_initial_stocks net s)) \<longleftrightarrow> near_low d"
    using r set_map_filter_accepted by simp
  show "\<forall>d. PDict d \<in> set qs \<longrightarrow>
          (candidate_of d \<in> set (fst (get_initial_stocks net s)) \<longleftrightarrow> near_low d)"
    using mem by blast
  show "\<forall>d p y. PDict d \<in> set qs
          \<and> num_of (dict_get d (ascii ''price'') (PInt 0)) = Some p
          \<and> to_float (dict_get d (ascii ''yearLow'') (PInt 0)) = Inr y
          \<and> 0 < p \<and> 0 < y \<longrightarrow>
          (candidate_of d \<in> set (fst (get_initial_stocks net s))
             \<longleftrightarrow> le_fl p (binary64 (y * float_1_02)))"
    using mem near_low_positive by blast
  show "\<forall>d. PDict d \<in> set qs
          \<and> (num_of (dict_get d (ascii ''price'') (PInt 0)) \<in> {None, Some 0}
             \<or> num_of (dict_get d (ascii ''yearLow'') (PInt 0)) \<in> {None, Some 0})
          \<longrightarrow> candidate_of d \<notin> set (fst (get_initial_stocks net s))"
    using mem near_low_numbers by blast
qed

lemma get_initial_stocks_always_reply:
  "fst (get_initial_stocks (always_reply v) (StockScanner k)) =
     (case py_iter v of
        Inl e \<Rightarrow> []
      | Inr qs \<Rightarrow> (case quotes_loop qs [] of Inl e \<Rightarrow> [] | Inr stocks_info \<Rightarrow> stocks_info))"
proof -
  have "api_calls (StockScanner k) < max_daily_calls (StockScanner k)"
    by (simp add: StockScanner_def)
  from make_api_call_always_reply [OF this, of v "quote_url (StockScanner k)"]
  show ?thesis
    by (simp add: get_initial_stocks_def split: sum.splits)
qed

lemma int_to_float_huge: "int_to_float (2 ^ 1024) = Inl OverflowError"
  by (rule int_to_float_overflow) (simp add: overflow_threshold_def)

lemma near_low_abc: "near_low abc_quote"
  by (simp add: near_low_def passes_filter_def abc_quote_def dict_get_def ascii_def
      float_mul_10 double_9_9)

lemma near_low_xyz: "\<not> near_low xyz_quote"
  by (simp add: near_low_def passes_filter_def xyz_quote_def dict_get_def ascii_def
      float_mul_10)

lemma near_low_nolow: "\<not> near_low nolow_quote"
  by (simp add: near_low_def passes_filter_def nolow_quote_def dict_get_def ascii_def
      int_to_float_0)

lemma near_low_neg: "near_low neg_quote"
  by (simp add: near_low_def passes_filter_def neg_quote_def dict_get_def ascii_def
      int_to_float_10 float_mul_10)

lemma overflowing_examples:
  "\<not> overflowing abc_quote \<and> \<not> overflowing xyz_quote \<and> \<not> overflowing nolow_quote
   \<and> \<not> overflowing neg_quote \<and> overflowing huge_quote"
  by (simp add: overflowing_def abc_quote_def xyz_quote_def nolow_quote_def neg_quote_def
      huge_quote_def dict_get_def ascii_def overflow_threshold_def)

lemma candidate_of_abc: "candidate_of abc_quote = abc_stock"
  by (simp add: candidate_of_def abc_quote_def abc_stock_def dict_get_def ascii_def)

lemma scan_neg_quote: "scan_quote (PDict neg_quote) = Inr (Some (candidate_of neg_quote))"
  using scan_quote_dict [of neg_quote] overflowing_examples near_low_neg by simp

lemma scan_abc_quote: "scan_quote (PDict abc_quote) = Inr (Some abc_stock)"
  using scan_quote_dict [of abc_quote] overflowing_examples near_low_abc candidate_of_abc by simp

theorem initial_filter_counterexample:
  "num_of (dict_get neg_quote (ascii ''price'') (PInt 0)) = Some (- 5)
   \<and> candidate_of neg_quote
       \<in> set (fst (get_initial_stocks (always_reply (PList [PDict neg_quote])) (StockScanner None)))
   \<and> fst (get_initial_stocks (always_reply (PList [PDict abc_quote])) (StockScanner None))
       = [abc_stock]
   \<and> fst (get_initial_stocks (always_reply (PList [PDict abc_quote, PNone])) (StockScanner None))
       = []"
  by (simp add: get_initial_stocks_always_reply scan_neg_quote scan_abc_quote)
    (simp add: neg_quote_def dict_get_def ascii_def scan_quote_def)

theorem initial_filter_witness:
  "fst (make_api_call (always_reply (PList [PDict abc_quote, PDict xyz_quote, PDict nolow_quote]))
         (quote_url (StockScanner None)) 3 (StockScanner None))
     = Inr (PList [PDict abc_quote, PDict xyz_quote, PDict nolow_quote])
   \<and> is_dict (PDict abc_quote) \<and> is_dict (PDict xyz_quote) \<and> is_dict (PDict nolow_quote)
   \<and> \<not> overflowing abc_quote \<and> \<not> overflowing xyz_quote \<and> \<not> overflowing nolow_quote
   \<and> fst (get_initial_stocks
            (always_reply (PList [PDict abc_quote, PDict xyz_quote, PDict nolow_quote]))
            (StockScanner None)) = [abc_stock]
   \<and> near_low abc_quote \<and> \<not> near_low xyz_quote \<and> \<not> near_low nolow_quote
   \<and> num_of (dict_get nolow_quote (ascii ''yearLow'') (PInt 0)) = Some 0
   \<and> fst (make_api_call (always_reply (PList [PDict abc_quote, PDict huge_quote]))
         (quote_url (StockScanner None)) 3 (StockScanner None))
     = Inr (PList [PDict abc_quote, PDict huge_quote])
   \<and> is_dict (PDict huge_quote) \<and> overflowing huge_quote
   \<and> fst (get_initial_stocks (always_reply (PList [PDict abc_quote, PDict huge_quote]))
            (StockScanner None)) = []"
proof -
  have s0: "api_calls (StockScanner None) < max_daily_calls (StockScanner None)"
    by (simp add: StockScanner_def)
  have call: "fst (make_api_call (always_reply (PList [PDict abc_quote, PDict xyz_quote, PDict nolow_quote]))
         (quote_url (StockScanner None)) 3 (StockScanner None))
     = Inr (PList [PDict abc_quote, PDict xyz_quote, PDict nolow_quote])"
    by (simp add: make_api_call_always_reply [OF s0])
  have dicts: "\<forall>q \<in> set [PDict abc_quote, PDict xyz_quote, PDict nolow_quote]. is_dict q"
    by simp
  have call2: "fst (make_api_call (always_reply (PList [PDict abc_quote, PDict huge_quote]))
         (quote_url (StockScanner None)) 3 (StockScanner None))
     = Inr (PList [PDict abc_quote, PDict huge_quote])"
    by (simp add: make_api_call_always_reply [OF s0])
  have dicts2: "\<forall>q \<in> set [PDict abc_quote, PDict huge_quote]. is_dict q"
    by simp
  have z: "num_of (dict_get nolow_quote (ascii ''yearLow'') (PInt 0)) = Some 0"
    by (simp add: nolow_quote_def dict_get_def ascii_def)
  have safe: "\<forall>d. PDict d \<in> set [PDict abc_quote, PDict xyz_quote, PDict nolow_quote]
                \<longrightarrow> \<not> overflowing d"
    using overflowing_examples by auto
  have unsafe: "\<exists>d. PDict d \<in> set [PDict abc_quote, PDict huge_quote] \<and> overflowing d"
    using overflowing_examples by auto
  have a: "fst (get_initial_stocks
            (always_reply (PList [PDict abc_quote, PDict xyz_quote, PDict nolow_quote]))
            (StockScanner None)) = [abc_stock]"
    using initial_filter [OF call dicts] safe near_low_abc near_low_xyz near_low_nolow
      candidate_of_abc
    by (simp add: List.map_filter_def)
  have b: "fst (get_initial_stocks (always_reply (PList [PDict abc_quote, PDict huge_quote]))
            (StockScanner None)) = []"
    using initial_filter [OF call2 dicts2] unsafe by blast
  show ?thesis
    using a b call call2 z overflowing_examples near_low_abc near_low_xyz near_low_nolow
    by simp
qed
section \<open>The enricher\<close>

lemma py_slice200_Inr:
  "py_slice200 v = Inr h \<longleftrightarrow>
     (\<exists>u. v = PStr u \<and> h = PStr (take 200 u)) \<or> (\<exists>xs. v = PList xs \<and> h = PList (take 200 xs))"
  by (cases v) auto

lemma py_add_str_Inr: "py_add_str h e = Inr w \<longleftrightarrow> (\<exists>u. h = PStr u \<and> w = PStr (u @ e))"
  by (cases h) auto

lemma py_get_Inr: "py_get v k dflt = Inr w \<longleftrightarrow> (\<exists>d. v = PDict d \<and> w = dict_get d k dflt)"
  by (cases v) auto

lemma in_band_Inr:
  "in_band v = Inr b \<longleftrightarrow> (\<exists>m. num_of v = Some m \<and> b = (10000000 \<le> m \<and> m \<le> 300000000))"
  by (auto simp add: in_band_def split: option.splits)

lemma int_of_num: "int_of v = Some i \<Longrightarrow> num_of v = Some (of_int i)"
  by (cases v) (auto split: if_splits)

lemma float_div_Inr: "y \<noteq> 0 \<Longrightarrow> \<exists>f. float_div x y = Inr f"
  by (simp add: float_div_def)

text \<open>A market cap inside the band is within the float range: \<^verbatim>\<open>market_cap/1e6\<close> succeeds.\<close>

lemma py_div_millions:
  assumes "num_of v = Some m" and "10000000 \<le> m" and "m \<le> 300000000"
  shows "\<exists>f. py_div v (PFloat 1000000) = Inr f"
proof (cases v)
  case (PInt i)
  with assms have "\<bar>rat_of_int i\<bar> \<le> 300000000" by simp
  moreover have "(300000000 :: rat) < overflow_threshold" by (simp add: overflow_threshold_def)
  ultimately have "\<bar>rat_of_int i\<bar> < overflow_threshold" by (rule le_less_trans)
  from int_to_float_finite [OF this] obtain x where "int_to_float i = Inr x" by blast
  with PInt show ?thesis by (simp add: py_div_def float_div_def)
next
  case (PFloat r)
  then show ?thesis by (simp add: py_div_def float_div_def)
qed (use assms in \<open>simp_all split: if_splits\<close>)

lemma enrich_info_Some:
  "enrich_info fm stock info = Inr (Some r) \<longleftrightarrow>
     (\<exists>d m millions cp lo ratio t.
        info = PDict d
        \<and> num_of (dict_get d (ascii ''marketCap'') (PInt 0)) = Some m
        \<and> 10000000 \<le> m \<and> m \<le> 300000000
        \<and> py_div (dict_get d (ascii ''marketCap'') (PInt 0)) (PFloat 1000000) = Inr millions
        \<and> py_round2 (price stock) = Inr cp
        \<and> py_round2 (yearLow stock) = Inr lo
        \<and> py_div (price stock) (yearLow stock) = Inr ratio
        \<and> dict_get d (ascii ''longBusinessSummary'') not_available = PStr t
        \<and> r = \<lparr>Symbol = symbol stock,
                 Company_Name = dict_get d (ascii ''longName'') not_available,
                 Current_Price = cp,
                 Week52_Low = lo,
                 Distance_from_Low = PStr (str_float fm (distance_from_low ratio) @ ascii ''%''),
                 Market_Cap = PStr (ascii ''$'' @ fmt_1f fm millions @ ascii ''M''),
                 Industry = dict_get d (ascii ''industry'') not_available,
                 Sector = dict_get d (ascii ''sector'') not_available,
                 Volume = dict_get d (ascii ''volume'') (PInt 0),
                 Description = PStr (take 200 t @ ascii ''...'')\<rparr>)"
proof
  assume "enrich_info fm stock info = Inr (Some r)"
  then show "\<exists>d m millions cp lo ratio t.
        info = PDict d
        \<and> num_of (dict_get d (ascii ''marketCap'') (PInt 0)) = Some m
        \<and> 10000000 \<le> m \<and> m \<le> 300000000
        \<and> py_div (dict_get d (ascii ''marketCap'') (PInt 0)) (PFloat 1000000) = Inr millions
        \<and> py_round2 (price stock) = Inr cp
        \<and> py_round2 (yearLow stock) = Inr lo
        \<and> py_div (price stock) (yearLow stock) = Inr ratio
        \<and> dict_get d (ascii ''longBusinessSummary'') not_available = PStr t
        \<and> r = \<lparr>Symbol = symbol stock,
                 Company_Name = dict_get d (ascii ''longName'') not_available,
                 Current_Price = cp,
                 Week52_Low = lo,
                 Distance_from_Low = PStr (str_float fm (distance_from_low ratio) @ ascii ''%''),
                 Market_Cap = PStr (ascii ''$'' @ fmt_1f fm millions @ ascii ''M''),
                 Industry = dict_get d (ascii ''industry'') not_available,
                 Sector = dict_get d (ascii ''sector'') not_available,
                 Volume = dict_get d (ascii ''volume'') (PInt 0),
                 Description = PStr (take 200 t @ ascii ''...'')\<rparr>"
    unfolding enrich_info_def
    by (auto simp add: ebind_Inr py_get_Inr in_band_Inr py_slice200_Inr py_add_str_Inr
        split: if_splits)
next
  assume "\<exists>d m millions cp lo ratio t.
        info = PDict d
        \<and> num_of (dict_get d (ascii ''marketCap'') (PInt 0)) = Some m
        \<and> 10000000 \<le> m \<and> m \<le> 300000000
        \<and> py_div (dict_get d (ascii ''marketCap'') (PInt 0)) (PFloat 1000000) = Inr millions
        \<and> py_round2 (price stock) = Inr cp
        \<and> py_round2 (yearLow stock) = Inr lo
        \<and> py_div (price stock) (yearLow stock) = Inr ratio
        \<and> dict_get d (ascii ''longBusinessSummary'') not_available = PStr t
        \<and> r = \<lparr>Symbol = symbol stock,
                 Company_Name = dict_get d (ascii ''longName'') not_available,
                 Current_Price = cp,
                 Week52_Low = lo,
                 Distance_from_Low = PStr (str_float fm (distance_from_low ratio) @ ascii ''%''),
                 Market_Cap = PStr (ascii ''$'' @ fmt_1f fm millions @ ascii ''M''),
                 Industry = dict_get d (ascii ''industry'') not_available,
                 Sector = dict_get d (ascii ''sector'') not_available,
                 Volume = dict_get d (ascii ''volume'') (PInt 0),
                 Description = PStr (take 200 t @ ascii ''...'')\<rparr>"
  then show "enrich_info fm stock info = Inr (Some r)"
    unfolding enrich_info_def
    by (auto simp add: ebind_def in_band_def)
qed

lemma enrich_loop_map_filter:
  "enrich_loop yf fm stocks acc = acc @ List.map_filter (enriched_record yf fm) stocks"
proof (induction stocks arbitrary: acc)
  case Nil
  show ?case by simp
next
  case (Cons stock rest)
  show ?case
    by (simp add: Cons.IH enriched_record_def split: sum.splits option.splits)
qed

lemma enrich_stock_data_map_filter:
  "enrich_stock_data yf fm stocks = List.map_filter (enriched_record yf fm) stocks"
  by (simp add: enrich_stock_data_def enrich_loop_map_filter)

lemma enriched_record_Some:
  "enriched_record yf fm stock = Some r \<longleftrightarrow> enrich_one yf fm stock = Inr (Some r)"
  by (simp add: enriched_record_def split: sum.splits option.splits)

lemma py_round2_num: "num_of v = Some x \<Longrightarrow> \<exists>w. py_round2 v = Inr w"
  by (cases v) simp_all

lemma is_candidateE:
  assumes "is_candidate stock"
  obtains p y0 y where "num_of (price stock) = Some p" "num_of (yearLow stock) = Some y0"
    "to_float (yearLow stock) = Inr y" "p \<noteq> 0" "y0 \<noteq> 0" "le_fl p (float_mul y float_1_02)"
  using assms
  by (auto simp add: is_candidate_def passes_filter_def split: option.splits sum.splits)

text \<open>
  The division \<^verbatim>\<open>stock['price'] / stock['yearLow']\<close> of a candidate: both are numbers
  and the year low is not zero, so it can only raise \<^verbatim>\<open>OverflowError\<close>.
\<close>

lemma py_div_candidate:
  assumes "is_candidate stock"
  shows "(\<exists>ratio. py_div (price stock) (yearLow stock) = Inr ratio)
         \<longleftrightarrow> \<not> quotient_overflows (price stock) (yearLow stock)"
proof -
  from assms obtain p y0 y where n: "num_of (price stock) = Some p"
      "num_of (yearLow stock) = Some y0" "to_float (yearLow stock) = Inr y"
      "p \<noteq> 0" "y0 \<noteq> 0"
    by (rule is_candidateE)
  show ?thesis
  proof (cases "\<exists>i j. int_of (price stock) = Some i \<and> int_of (yearLow stock) = Some j")
    case True
    then obtain i j where ij: "int_of (price stock) = Some i" "int_of (yearLow stock) = Some j"
      by blast
    have "p = of_int i" "y0 = of_int j"
      using int_of_num [OF ij(1)] int_of_num [OF ij(2)] n by simp_all
    then have nz: "i \<noteq> 0" "j \<noteq> 0" using n by auto
    have dv: "py_div (price stock) (yearLow stock) = int_div i j"
      using n ij by (simp add: py_div_def)
    have qo: "quotient_overflows (price stock) (yearLow stock)
                \<longleftrightarrow> overflow_threshold \<le> \<bar>rat_of_int i / rat_of_int j\<bar>"
      using ij by (simp add: quotient_overflows_def)
    show ?thesis
    proof (cases "overflow_threshold \<le> \<bar>rat_of_int i / rat_of_int j\<bar>")
      case True
      from binary64_overflow [OF this] have "int_div i j = Inl OverflowError"
        using nz by (simp add: int_div_def)
      with True dv qo show ?thesis by simp
    next
      case False
      then have "\<bar>rat_of_int i / rat_of_int j\<bar> < overflow_threshold" by simp
      from binary64_finite [OF this] have "\<exists>f. int_div i j = Inr f"
        using nz by (cases "binary64 (rat_of_int i / rat_of_int j)") (simp_all add: int_div_def)
      with False dv qo show ?thesis by simp
    qed
  next
    case False
    then have qo: "quotient_overflows (price stock) (yearLow stock)
                     \<longleftrightarrow> too_large (price stock) \<or> too_large (yearLow stock)"
      by (auto simp add: quotient_overflows_def split: option.splits)
    have dv: "py_div (price stock) (yearLow stock)
                = (case to_float (price stock) of Inl e \<Rightarrow> Inl e | Inr x \<Rightarrow> float_div x y)"
      using False n
      by (cases "to_float (price stock)") (auto simp add: py_div_def split: option.splits)
    have ly: "\<not> too_large (yearLow stock)" using to_float_num [OF n(3)] by simp
    have y: "y \<noteq> 0" using n(3) n(2) n(5) by (rule to_float_nonzero)
    show ?thesis
    proof (cases "too_large (price stock)")
      case True
      from to_float_overflow [OF this] dv qo True show ?thesis by simp
    next
      case False
      from to_float_Inr [OF n(1) False] obtain x where "to_float (price stock) = Inr x" by blast
      with dv float_div_Inr [OF y, of x] qo False ly show ?thesis by auto
    qed
  qed
qed

lemma enrich_one_Some:
  "enrich_one yf fm stock = Inr (Some r) \<longleftrightarrow>
     (\<exists>info. yf (symbol stock) = Inr info \<and> enrich_info fm stock info = Inr (Some r))"
  by (simp add: enrich_one_def ebind_Inr)

text \<open>
  C6, as amended.  A candidate becomes an enriched record if and only if the metadata
  lookup returns a dictionary, its \<^verbatim>\<open>marketCap\<close> (0 when missing) is a number with
  \<^verbatim>\<open>10000000 <= marketCap <= 300000000\<close>, its \<^verbatim>\<open>longBusinessSummary\<close> is missing or
  a string, and the division \<^verbatim>\<open>price / yearLow\<close> does not raise \<^verbatim>\<open>OverflowError\<close>:
  when both are ints their exact quotient is within the float range, and otherwise neither
  is an int too large to be converted to a float.  A candidate whose market cap is missing
  or zero is skipped.  The enricher returns, in input order, the records of the candidates
  that become one.
\<close>

theorem band_filter:
  assumes "is_candidate stock"
  shows "(enriched_record yf fm stock \<noteq> None \<longleftrightarrow>
            (\<exists>d m t. yf (symbol stock) = Inr (PDict d)
               \<and> num_of (dict_get d (ascii ''marketCap'') (PInt 0)) = Some m
               \<and> 10000000 \<le> m \<and> m \<le> 300000000
               \<and> dict_get d (ascii ''longBusinessSummary'') not_available = PStr t)
            \<and> \<not> quotient_overflows (price stock) (yearLow stock))
         \<and> (\<forall>d. yf (symbol stock) = Inr (PDict d)
               \<and> num_of (dict_get d (ascii ''marketCap'') (PInt 0)) = Some 0
               \<longrightarrow> enriched_record yf fm stock = None)
         \<and> enrich_stock_data yf fm stocks = List.map_filter (enriched_record yf fm) stocks"
proof -
  from assms obtain p y0 where py: "num_of (price stock) = Some p"
      "num_of (yearLow stock) = Some y0"
    by (rule is_candidateE)
  obtain cp lo where r: "py_round2 (price stock) = Inr cp" "py_round2 (yearLow stock) = Inr lo"
    using py_round2_num [OF py(1)] py_round2_num [OF py(2)] by blast
  have dv: "(\<exists>ratio. py_div (price stock) (yearLow stock) = Inr ratio)
              \<longleftrightarrow> \<not> quotient_overflows (price stock) (yearLow stock)"
    using assms by (rule py_div_candidate)
  have "(\<exists>r. enriched_record yf fm stock = Some r) \<longleftrightarrow>
            (\<exists>d m t. yf (symbol stock) = Inr (PDict d)
               \<and> num_of (dict_get d (ascii ''marketCap'') (PInt 0)) = Some m
               \<and> 10000000 \<le> m \<and> m \<le> 300000000
               \<and> dict_get d (ascii ''longBusinessSummary'') not_available = PStr t)
            \<and> (\<exists>ratio. py_div (price stock) (yearLow stock) = Inr ratio)"
    unfolding enriched_record_Some enrich_one_Some enrich_info_Some
    using r py_div_millions by fastforce
  then have a: "enriched_record yf fm stock \<noteq> None \<longleftrightarrow>
            (\<exists>d m t. yf (symbol stock) = Inr (PDict d)
               \<and> num_of (dict_get d (ascii ''marketCap'') (PInt 0)) = Some m
               \<and> 10000000 \<le> m \<and> m \<le> 300000000
               \<and> dict_get d (ascii ''longBusinessSummary'') not_available = PStr t)
            \<and> \<not> quotient_overflows (price stock) (yearLow stock)"
    using dv by auto
  have b: "\<forall>d. yf (symbol stock) = Inr (PDict d)
               \<and> num_of (dict_get d (ascii ''marketCap'') (PInt 0)) = Some 0
               \<longrightarrow> enriched_record yf fm stock = None"
    using a by auto
  show ?thesis
    using a b enrich_stock_data_map_filter by blast
qed

lemma abc_is_candidate: "is_candidate abc_stock"
  by (simp add: is_candidate_def passes_filter_def abc_stock_def float_mul_10 double_9_9)

lemma deep_is_candidate: "is_candidate deep_stock"
  by (simp add: is_candidate_def passes_filter_def deep_stock_def int_to_float_1 float_mul_1)

lemma abc_quotient: "\<not> quotient_overflows (price abc_stock) (yearLow abc_stock)"
  by (simp add: quotient_overflows_def abc_stock_def)

lemma deep_quotient: "quotient_overflows (price deep_stock) (yearLow deep_stock)"
  by (simp add: quotient_overflows_def deep_stock_def overflow_threshold_def)

lemma enrich_abc: "enrich_one abc_only plain_formats abc_stock = Inr (Some abc_record)"
  by (simp add: enrich_one_def enrich_info_def ebind_def abc_only_def abc_stock_def abc_info_def
      abc_record_def plain_formats_def dict_get_def in_band_def not_available_def ascii_def
      py_div_cap py_div_abc round2_9_9 round2_10 distance_abc one_decimal_examples
      del: float_round2.simps)

lemma enrich_null_summary:
  "enrich_one (\<lambda>ticker. Inr null_summary_info) plain_formats abc_stock = Inl TypeError"
  by (simp add: enrich_one_def enrich_info_def ebind_def null_summary_info_def
      abc_stock_def dict_get_def in_band_def not_available_def ascii_def
      py_div_cap py_div_abc round2_9_9 round2_10 del: float_round2.simps)

theorem band_filter_counterexample:
  "is_candidate abc_stock
   \<and> (\<lambda>ticker. Inr null_summary_info) (symbol abc_stock)
       = Inr (PDict [(ascii ''marketCap'', PInt 50000000), (ascii ''longBusinessSummary'', PNone)])
   \<and> dict_get [(ascii ''marketCap'', PInt 50000000), (ascii ''longBusinessSummary'', PNone)]
        (ascii ''marketCap'') (PInt 0) = PInt 50000000
   \<and> (10000000::int) \<le> 50000000 \<and> (50000000::int) \<le> 300000000
   \<and> enrich_one (\<lambda>ticker. Inr null_summary_info) plain_formats abc_stock = Inl TypeError
   \<and> enrich_stock_data (\<lambda>ticker. Inr null_summary_info) plain_formats [abc_stock] = []"
  by (simp add: abc_is_candidate enrich_null_summary enrich_stock_data_def)
    (simp add: null_summary_info_def dict_get_def ascii_def)

theorem band_filter_witness:
  "is_candidate abc_stock
   \<and> enriched_record abc_only plain_formats abc_stock \<noteq> None
   \<and> abc_only (symbol abc_stock) = Inr abc_info
   \<and> num_of (dict_get [(ascii ''marketCap'', PInt 50000000),
                         (ascii ''longName'', PStr (ascii ''ABC Corp'')),
                         (ascii ''longBusinessSummary'', PStr (ascii ''Makes things.''))]
               (ascii ''marketCap'') (PInt 0)) = Some 50000000
   \<and> \<not> quotient_overflows (price abc_stock) (yearLow abc_stock)
   \<and> (\<lambda>ticker. Inr (PDict [])) (symbol abc_stock) = Inr (PDict [])
   \<and> num_of (dict_get [] (ascii ''marketCap'') (PInt 0)) = Some 0
   \<and> enriched_record (\<lambda>ticker. Inr (PDict [])) plain_formats abc_stock = None
   \<and> length (enrich_stock_data abc_only plain_formats [abc_stock]) = 1
   \<and> is_candidate deep_stock
   \<and> abc_only (symbol deep_stock) = Inr abc_info
   \<and> quotient_overflows (price deep_stock) (yearLow deep_stock)
   \<and> enriched_record abc_only plain_formats deep_stock = None"
  using band_filter [OF abc_is_candidate, of abc_only plain_formats "[abc_stock]"]
    band_filter [OF abc_is_candidate, of "\<lambda>ticker. Inr (PDict [])" plain_formats "[]"]
    band_filter [OF deep_is_candidate, of abc_only plain_formats "[]"]
    abc_is_candidate deep_is_candidate abc_quotient deep_quotient enrich_abc
  by (simp add: enriched_record_def dict_get_def ascii_def)
    (simp add: abc_only_def abc_stock_def deep_stock_def abc_info_def)











lemma description_present:
  assumes "enrich_one yf fm stock = Inr (Some r)"
  shows "\<exists>d t. yf (symbol stock) = Inr (PDict d)
           \<and> dict_get d (ascii ''longBusinessSummary'') not_available = PStr t
           \<and> Description r = PStr (take 200 t @ ascii ''...'')"
  using assms by (auto simp add: enrich_one_Some enrich_info_Some)

text \<open>
  C7.  When the metadata has no \<^verbatim>\<open>longBusinessSummary\<close>, the \<^verbatim>\<open>Description\<close> of the
  record is \<^verbatim>\<open>N/A...\<close>: the ellipsis is appended to the default too, so the field is not
  exactly \<^verbatim>\<open>N/A\<close>.  (With a summary present it is the first 200 characters followed by
  the ellipsis, see \<open>description_present\<close>.)
\<close>

theorem description_absent_summary:
  "map_of [(ascii ''marketCap'', PInt 50000000)] (ascii ''longBusinessSummary'') = None
   \<and> map Description
         (enrich_stock_data (\<lambda>ticker. Inr no_summary_info) plain_formats [abc_stock])
       = [PStr (ascii ''N/A...'')]
   \<and> ascii ''N/A...'' \<noteq> ascii ''N/A''"
  by (simp add: enrich_stock_data_def enrich_one_def enrich_info_def ebind_def
      abc_stock_def no_summary_info_def dict_get_def in_band_def not_available_def ascii_def
      py_div_cap py_div_abc round2_9_9 round2_10 del: float_round2.simps)

lemma scan_quote_is_candidate:
  assumes "scan_quote q = Inr (Some c)"
  shows "is_candidate c"
proof -
  from assms obtain d where q: "q = PDict d"
    by (cases q) (simp_all add: scan_quote_def)
  have "\<not> overflowing d"
  proof
    assume "overflowing d"
    from scan_quote_overflowing [OF this] assms q show False by simp
  qed
  from scan_quote_dict [OF this] assms q have "accepted (PDict d) = Some c"
    by auto
  then have "near_low d" "c = candidate_of d"
    by (simp_all split: if_splits)
  then show ?thesis
    by (simp add: is_candidate_def near_low_def candidate_of_def)
qed

lemma quotes_loop_candidates:
  "quotes_loop qs acc = Inr cs \<Longrightarrow> \<forall>c \<in> set acc. is_candidate c \<Longrightarrow>
   \<forall>c \<in> set cs. is_candidate c"
proof (induction qs arbitrary: acc)
  case Nil
  then show ?case by simp
next
  case (Cons q qs)
  show ?case
  proof (cases "scan_quote q")
    case (Inl e)
    with Cons.prems(1) have "quotes_loop qs acc = Inr cs"
      by (simp split: if_splits)
    from Cons.IH [OF this Cons.prems(2)] show ?thesis .
  next
    case (Inr res)
    show ?thesis
    proof (cases res)
      case None
      with Inr Cons.prems(1) have "quotes_loop qs acc = Inr cs" by simp
      from Cons.IH [OF this Cons.prems(2)] show ?thesis .
    next
      case (Some c)
      with Inr Cons.prems(1) have l: "quotes_loop qs (acc @ [c]) = Inr cs" by simp
      have "is_candidate c" using Inr Some by (intro scan_quote_is_candidate [of q]) simp
      with Cons.prems(2) have "\<forall>c \<in> set (acc @ [c]). is_candidate c" by simp
      from Cons.IH [OF l this] show ?thesis .
    qed
  qed
qed

lemma get_initial_stocks_candidates:
  "\<forall>c \<in> set (fst (get_initial_stocks net s)). is_candidate c"
proof -
  have "\<And>qs cs. quotes_loop qs [] = Inr cs \<Longrightarrow> \<forall>c \<in> set cs. is_candidate c"
    using quotes_loop_candidates [of _ "[]"] by simp
  then show ?thesis
    by (auto simp add: get_initial_stocks_def split: prod.splits sum.splits)
qed

section \<open>The notifier\<close>

lemma length_truncation_notice: "length truncation_notice = 35"
  by (simp add: truncation_notice_def ascii_def)

lemma limit_length_long:
  "MAX_MESSAGE_LENGTH < length b \<Longrightarrow> limit_length b = take 1500 b @ truncation_notice"
  by (simp add: limit_length_def MAX_MESSAGE_LENGTH_def)

lemma limit_length_short: "length b \<le> MAX_MESSAGE_LENGTH \<Longrightarrow> limit_length b = b"
  by (simp add: limit_length_def)

lemma length_limit_length: "length (limit_length b) \<le> 1600"
  by (simp add: limit_length_def MAX_MESSAGE_LENGTH_def length_truncation_notice)

lemma message_loop_append:
  "message_loop fm stocks acc = acc @ concat (map (stock_lines fm) stocks)"
  by (induction stocks arbitrary: acc) simp_all

lemma length_assemble:
  "length (assemble fm now stocks calls) =
     40 + sum_list (map (\<lambda>stock. length (stock_lines fm stock)) stocks)
     + 11 + length now + 1 + 20 + length (str_int calls)"
  by (simp add: assemble_def message_loop_append ascii_def length_concat comp_def)

lemma length_abc_lines: "length (stock_lines plain_formats abc_record) = 87"
  by (simp add: stock_lines_def abc_record_def plain_formats_def one_decimal_examples ascii_def)

text \<open>
  C4.  When the assembled message is longer than 1600 characters, \<^verbatim>\<open>send_whatsapp\<close>
  sends its first 1500 characters followed by the notice
  \<^verbatim>\<open>"\n\n(Message truncated due to length)"\<close>, 1535 characters in all; a message of at
  most 1600 characters is sent unchanged.  What is sent is never longer than 1600
  characters.
\<close>

theorem message_length_limit:
  "(1600 < length (assemble fm now stocks calls) \<longrightarrow>
      body (send_whatsapp env fm now stocks account_sid auth_token from_number to_number calls)
        = take 1500 (assemble fm now stocks calls)
          @ [10, 10] @ ascii ''(Message truncated due to length)''
      \<and> length (body (send_whatsapp env fm now stocks
                        account_sid auth_token from_number to_number calls)) = 1535)
   \<and> (length (assemble fm now stocks calls) \<le> 1600 \<longrightarrow>
        body (send_whatsapp env fm now stocks account_sid auth_token from_number to_number calls)
          = assemble fm now stocks calls)
   \<and> length (body (send_whatsapp env fm now stocks
                      account_sid auth_token from_number to_number calls)) \<le> 1600"
proof (intro conjI impI)
  assume long: "1600 < length (assemble fm now stocks calls)"
  then have "limit_length (assemble fm now stocks calls)
               = take 1500 (assemble fm now stocks calls) @ truncation_notice"
    by (intro limit_length_long) (simp add: MAX_MESSAGE_LENGTH_def)
  then show b: "body (send_whatsapp env fm now stocks account_sid auth_token from_number to_number calls)
        = take 1500 (assemble fm now stocks calls)
          @ [10, 10] @ ascii ''(Message truncated due to length)''"
    by (simp add: send_whatsapp_def truncation_notice_def)
  show "length (body (send_whatsapp env fm now stocks
                        account_sid auth_token from_number to_number calls)) = 1535"
    using long by (simp add: b ascii_def)
next
  assume "length (assemble fm now stocks calls) \<le> 1600"
  then have "limit_length (assemble fm now stocks calls) = assemble fm now stocks calls"
    by (intro limit_length_short) (simp add: MAX_MESSAGE_LENGTH_def)
  then show "body (send_whatsapp env fm now stocks account_sid auth_token from_number to_number calls)
          = assemble fm now stocks calls"
    by (simp add: send_whatsapp_def)
next
  show "length (body (send_whatsapp env fm now stocks
                      account_sid auth_token from_number to_number calls)) \<le> 1600"
    by (simp add: send_whatsapp_def length_limit_length)
qed

lemma length_long_example:
  "length (assemble plain_formats (ascii ''2024-01-01 00:00:00'') (replicate 20 abc_record) 1) = 1832"
  by (simp add: length_assemble length_abc_lines sum_list_replicate str_int_def ascii_def)

lemma length_short_example:
  "length (assemble plain_formats (ascii ''2024-01-01 00:00:00'') [abc_record] 1) = 179"
  by (simp add: length_assemble length_abc_lines str_int_def ascii_def)

theorem message_length_limit_witness:
  "1600 < length (assemble plain_formats (ascii ''2024-01-01 00:00:00'') (replicate 20 abc_record) 1)
   \<and> body (send_whatsapp example_env plain_formats (ascii ''2024-01-01 00:00:00'')
             (replicate 20 abc_record) None None None None 1)
       = take 1500 (assemble plain_formats (ascii ''2024-01-01 00:00:00'') (replicate 20 abc_record) 1)
         @ [10, 10] @ ascii ''(Message truncated due to length)''
   \<and> length (body (send_whatsapp example_env plain_formats (ascii ''2024-01-01 00:00:00'')
             (replicate 20 abc_record) None None None None 1)) = 1535
   \<and> length (assemble plain_formats (ascii ''2024-01-01 00:00:00'') [abc_record] 1) \<le> 1600
   \<and> body (send_whatsapp example_env plain_formats (ascii ''2024-01-01 00:00:00'')
             [abc_record] None None None None 1)
       = assemble plain_formats (ascii ''2024-01-01 00:00:00'') [abc_record] 1"
  using message_length_limit [of plain_formats "ascii ''2024-01-01 00:00:00''"
      "replicate 20 abc_record" 1 example_env None None None None]
    message_length_limit [of plain_formats "ascii ''2024-01-01 00:00:00''"
      "[abc_record]" 1 example_env None None None None]
    length_long_example length_short_example
  by (simp add: ascii_def)

text \<open>
  C10.  What \<^verbatim>\<open>send_whatsapp\<close> hands to the messaging client does not depend on its
  parameters \<^verbatim>\<open>account_sid\<close>, \<^verbatim>\<open>auth_token\<close>, \<^verbatim>\<open>from_number\<close> and \<^verbatim>\<open>to_number\<close>:
  two calls that differ only in these give the same message, credentials and addresses,
  which are the values of the four \<^verbatim>\<open>TWILIO_\<close> environment variables.
\<close>

theorem send_whatsapp_ignores_parameters:
  "send_whatsapp env fm now stocks account_sid auth_token from_number to_number calls
     = send_whatsapp env fm now stocks account_sid' auth_token' from_number' to_number' calls
   \<and> client_sid (send_whatsapp env fm now stocks account_sid auth_token from_number to_number calls)
       = env (ascii ''TWILIO_ACCOUNT_SID'')
   \<and> client_token (send_whatsapp env fm now stocks account_sid auth_token from_number to_number calls)
       = env (ascii ''TWILIO_AUTH_TOKEN'')
   \<and> from_id (send_whatsapp env fm now stocks account_sid auth_token from_number to_number calls)
       = env (ascii ''TWILIO_FROM_NUMBER'')
   \<and> to_id (send_whatsapp env fm now stocks account_sid auth_token from_number to_number calls)
       = env (ascii ''TWILIO_TO_NUMBER'')"
  by (simp add: send_whatsapp_def)

theorem send_whatsapp_ignores_parameters_witness:
  "send_whatsapp example_env plain_formats (ascii ''2024-01-01 00:00:00'') [abc_record]
       (Some (ascii ''AC-other'')) (Some (ascii ''secret'')) (Some (ascii ''whatsapp:+2''))
       (Some (ascii ''whatsapp:+3'')) 1
     = send_whatsapp example_env plain_formats (ascii ''2024-01-01 00:00:00'') [abc_record]
         None None None None 1
   \<and> client_sid (send_whatsapp example_env plain_formats (ascii ''2024-01-01 00:00:00'')
         [abc_record] (Some (ascii ''AC-other'')) (Some (ascii ''secret''))
         (Some (ascii ''whatsapp:+2'')) (Some (ascii ''whatsapp:+3'')) 1) = Some (ascii ''AC0'')
   \<and> to_id (send_whatsapp example_env plain_formats (ascii ''2024-01-01 00:00:00'')
         [abc_record] (Some (ascii ''AC-other'')) (Some (ascii ''secret''))
         (Some (ascii ''whatsapp:+2'')) (Some (ascii ''whatsapp:+3'')) 1) = None"
  using send_whatsapp_ignores_parameters [of example_env plain_formats
      "ascii ''2024-01-01 00:00:00''" "[abc_record]"
      "Some (ascii ''AC-other'')" "Some (ascii ''secret'')" "Some (ascii ''whatsapp:+2'')"
      "Some (ascii ''whatsapp:+3'')" 1 None None None None]
  by (simp add: send_whatsapp_def example_env_def ascii_def)

end